theory Spec2Isabelle
  imports Main
begin

section \<open>Go strings, the trigger pattern and whitespace splitting\<close>

text \<open>
  A Go \<^verbatim>\<open>string\<close> is a sequence of bytes; it is modelled as \<^typ>\<open>string\<close>, whose
  characters are bytes. A rune is the code point read from the bytes, a natural number.
  The functions of this section are the ones \<^verbatim>\<open>main.go\<close> calls from \<^verbatim>\<open>regexp\<close>,
  \<^verbatim>\<open>strings\<close>, \<^verbatim>\<open>unicode\<close> and \<^verbatim>\<open>encoding/hex\<close>, written out for the
  arguments the program gives them.
\<close>

definition dq :: string where
  "dq = [CHR 0x22]"

definition letterBytes :: string where
  "letterBytes = ''abcdefghijklmnopqrstuvwxyzABCDEFGHIJKLMNOPQRSTUVWXYZ0123456789''"

definition possibleResponses :: "string list" where
  "possibleResponses = [''Done!'']"

subsection \<open>The regular expression \<^verbatim>\<open>^@ha\s\w+\s\w+\<close>\<close>

text \<open>
  The pattern uses three kinds of atoms: a literal byte, the Perl class \<^verbatim>\<open>\s\<close>
  (tab, newline, form feed, carriage return, space) and the Perl class \<^verbatim>\<open>\w\<close>
  (\<^verbatim>\<open>[0-9A-Za-z_]\<close>). Every atom accepts ASCII bytes only, so matching bytes is
  matching runes. The pattern begins with \<^verbatim>\<open>^\<close> and has no \<^verbatim>\<open>$\<close>: a match must begin
  at the first byte and may end anywhere.
\<close>

datatype atom = Lit char | PerlSpace | PerlWord

datatype item = One atom | OneOrMore atom

fun atomOk :: "atom \<Rightarrow> char \<Rightarrow> bool" where
  "atomOk (Lit l) c = (c = l)"
| "atomOk PerlSpace c = (c = CHR 0x09 \<or> c = CHR 0x0A \<or> c = CHR 0x0C \<or> c = CHR 0x0D \<or> c = CHR 0x20)"
| "atomOk PerlWord c = (let n = (of_char c :: nat) in
     (48 \<le> n \<and> n \<le> 57) \<or> (65 \<le> n \<and> n \<le> 90) \<or> n = 95 \<or> (97 \<le> n \<and> n \<le> 122))"

fun Match :: "item list \<Rightarrow> string \<Rightarrow> bool" where
  "Match [] s = True"
| "Match (One a # is) [] = False"
| "Match (One a # is) (c # cs) = (atomOk a c \<and> Match is cs)"
| "Match (OneOrMore a # is) [] = False"
| "Match (OneOrMore a # is) (c # cs) =
     (atomOk a c \<and> (Match is cs \<or> Match (OneOrMore a # is) cs))"

definition triggerMessageRegex :: "item list" where
  "triggerMessageRegex =
     [One (Lit (CHR ''@'')), One (Lit (CHR ''h'')), One (Lit (CHR ''a'')),
      One PerlSpace, OneOrMore PerlWord, One PerlSpace, OneOrMore PerlWord]"

subsection \<open>\<^verbatim>\<open>strings.Fields\<close>\<close>

text \<open>
  \<^verbatim>\<open>strings.Fields\<close> walks the string rune by rune (\<^verbatim>\<open>for end, rune := range s\<close>),
  cutting at every rune for which \<^verbatim>\<open>unicode.IsSpace\<close> holds. A byte sequence that is
  not valid UTF-8 is read as the rune \<^verbatim>\<open>U+FFFD\<close> of width one.
\<close>

definition RuneError :: nat where
  "RuneError = 0xFFFD"

definition acceptRange :: "nat \<Rightarrow> (nat \<times> nat \<times> nat) option" where
  "acceptRange s0 =
     (if 0xC2 \<le> s0 \<and> s0 \<le> 0xDF then Some (2, 0x80, 0xBF)
      else if s0 = 0xE0 then Some (3, 0xA0, 0xBF)
      else if 0xE1 \<le> s0 \<and> s0 \<le> 0xEC then Some (3, 0x80, 0xBF)
      else if s0 = 0xED then Some (3, 0x80, 0x9F)
      else if 0xEE \<le> s0 \<and> s0 \<le> 0xEF then Some (3, 0x80, 0xBF)
      else if s0 = 0xF0 then Some (4, 0x90, 0xBF)
      else if 0xF1 \<le> s0 \<and> s0 \<le> 0xF3 then Some (4, 0x80, 0xBF)
      else if s0 = 0xF4 then Some (4, 0x80, 0x8F)
      else None)"

fun DecodeRuneInString :: "string \<Rightarrow> nat \<times> nat" where
  "DecodeRuneInString [] = (RuneError, 0)"
| "DecodeRuneInString (c0 # cs) =
     (let s0 = (of_char c0 :: nat) in
      if s0 < 0x80 then (s0, 1)
      else case acceptRange s0 of
        None \<Rightarrow> (RuneError, 1)
      | Some (sz, lo, hi) \<Rightarrow>
          if Suc (length cs) < sz then (RuneError, 1)
          else let s1 = (of_char (cs ! 0) :: nat) in
            if s1 < lo \<or> hi < s1 then (RuneError, 1)
            else if sz \<le> 2 then ((s0 mod 0x20) * 0x40 + s1 mod 0x40, 2)
            else let s2 = (of_char (cs ! 1) :: nat) in
              if s2 < 0x80 \<or> 0xBF < s2 then (RuneError, 1)
              else if sz \<le> 3
                then ((s0 mod 0x10) * 0x1000 + (s1 mod 0x40) * 0x40 + s2 mod 0x40, 3)
              else let s3 = (of_char (cs ! 2) :: nat) in
                if s3 < 0x80 \<or> 0xBF < s3 then (RuneError, 1)
                else ((s0 mod 8) * 0x40000 + (s1 mod 0x40) * 0x1000
                        + (s2 mod 0x40) * 0x40 + s3 mod 0x40, 4))"

definition IsSpace :: "nat \<Rightarrow> bool" where
  "IsSpace r =
     (if r \<le> 0xFF
      then r = 0x09 \<or> r = 0x0A \<or> r = 0x0B \<or> r = 0x0C \<or> r = 0x0D \<or> r = 0x20
             \<or> r = 0x85 \<or> r = 0xA0
      else r = 0x1680 \<or> (0x2000 \<le> r \<and> r \<le> 0x200A) \<or> r = 0x2028 \<or> r = 0x2029
             \<or> r = 0x202F \<or> r = 0x205F \<or> r = 0x3000)"

text \<open>
  \<open>fieldsFrom cur s\<close> is the loop of \<^verbatim>\<open>FieldsFunc\<close> with the bytes of the field in
  progress in \<open>cur\<close> (empty: no field is open, the source's \<^verbatim>\<open>start < 0\<close>) and the
  bytes still to read in \<open>s\<close>.
\<close>

fun fieldsFrom :: "string \<Rightarrow> string \<Rightarrow> string list" where
  "fieldsFrom cur [] = (if cur = [] then [] else [cur])"
| "fieldsFrom cur (c # cs) =
     (if IsSpace (fst (DecodeRuneInString (c # cs)))
      then (if cur = [] then fieldsFrom [] (drop (snd (DecodeRuneInString (c # cs)) - 1) cs)
            else cur # fieldsFrom [] (drop (snd (DecodeRuneInString (c # cs)) - 1) cs))
      else fieldsFrom (cur @ c # take (snd (DecodeRuneInString (c # cs)) - 1) cs)
             (drop (snd (DecodeRuneInString (c # cs)) - 1) cs))"

definition Fields :: "string \<Rightarrow> string list" where
  "Fields s = fieldsFrom [] s"

subsection \<open>\<^verbatim>\<open>strings.TrimRight\<close> and \<^verbatim>\<open>hex.EncodeToString\<close>\<close>

text \<open>\<^verbatim>\<open>TrimRight\<close> for a cutset of ASCII bytes, as the program calls it.\<close>

definition TrimRight :: "string \<Rightarrow> string \<Rightarrow> string" where
  "TrimRight s cutset = rev (dropWhile (\<lambda>c. c \<in> set cutset) (rev s))"

definition hextable :: string where
  "hextable = ''0123456789abcdef''"

definition EncodeToString :: "string \<Rightarrow> string" where
  "EncodeToString src =
     concat (map (\<lambda>c. [hextable ! ((of_char c :: nat) div 16), hextable ! ((of_char c :: nat) mod 16)]) src)"

section \<open>The message types\<close>

record MessageActor =
  actor_Type :: string
  actor_Id :: string
  actor_Name :: string

record MessageObject =
  object_Type :: string
  object_Id :: string
  object_Name :: string
  object_Content :: string
  object_MediaType :: string

record MessageTarget =
  target_Type :: string
  target_Id :: string
  target_Name :: string

record Message =
  message_Type :: string
  Actor :: MessageActor
  Object :: MessageObject
  Target :: MessageTarget

record Response =
  response_Message :: string
  response_ReplyTo :: string

record RichObjectMessage =
  rich_Message :: string

datatype error = errInvalidBody

section \<open>The world outside the program\<close>

text \<open>
  The request the handler receives: its method, the result of reading its body
  (\<open>None\<close> when \<^verbatim>\<open>io.ReadAll\<close> returns an error) and \<^verbatim>\<open>r.Header.Get\<close>, which
  yields the empty string for a header that is absent.
\<close>

record Request =
  Method :: string
  Body :: "string option"
  Header_Get :: "string \<Rightarrow> string"

text \<open>The request \<^verbatim>\<open>sendReply\<close> builds: always a POST, with the four headers it sets.\<close>

record OutRequest =
  out_URL :: string
  out_Body :: string
  out_Header :: "(string \<times> string) list"

text \<open>
  Everything the program calls and does not define is a field of \<open>world\<close>: the
  configuration read by \<^verbatim>\<open>config.GetString\<close>, HMAC-SHA256 of \<^verbatim>\<open>crypto/hmac\<close> and
  \<^verbatim>\<open>crypto/sha256\<close> (key, then data, giving the 32 bytes of the sum), the decoders and
  the encoder of \<^verbatim>\<open>encoding/json\<close> (\<open>None\<close> when \<^verbatim>\<open>Decode\<close> returns an error), and
  the network: \<^verbatim>\<open>http.Post\<close> (url, content type, body; \<open>None\<close> for a transport error,
  otherwise the status code), \<^verbatim>\<open>http.NewRequest\<close> (method, url; \<open>False\<close> when it returns
  an error) and \<^verbatim>\<open>client.Do\<close> (\<open>False\<close> when it returns an error).
\<close>

record world =
  config_GetString :: "string \<Rightarrow> string"
  hmac_sha256 :: "string \<Rightarrow> string \<Rightarrow> string"
  json_Decode_Message :: "string \<Rightarrow> Message option"
  json_Decode_RichObjectMessage :: "string \<Rightarrow> RichObjectMessage option"
  json_Marshal :: "Response \<Rightarrow> string"
  http_Post :: "string \<Rightarrow> string \<Rightarrow> string \<Rightarrow> nat option"
  http_NewRequest :: "string \<Rightarrow> string \<Rightarrow> bool"
  client_Do :: "OutRequest \<Rightarrow> bool"

text \<open>
  What a run of the handler does to the outside, in order: each constructor is one call of
  the source. \<open>Log\<close> keeps the format string and the arguments of \<^verbatim>\<open>log.Printf\<close>
  (errors are not kept), \<open>HttpError\<close> the message and the status given to
  \<^verbatim>\<open>http.Error\<close>.
\<close>

datatype event =
    ReadAll
  | Log string "string list"
  | HttpError string nat
  | HttpPost string string string
  | ClientDo OutRequest
  | OsExit nat

text \<open>
  The generator behind \<^verbatim>\<open>math/rand\<close> is the stream of its raw outputs;
  \<^verbatim>\<open>rand.Intn n\<close> takes the next one into the range \<open>0 \<le> k < n\<close>. The program calls
  it with \<open>n = 62\<close> and \<open>n = 1\<close> only.
\<close>

type_synonym rng = "nat \<Rightarrow> nat"

definition rand_Intn :: "nat \<Rightarrow> rng \<Rightarrow> nat \<times> rng" where
  "rand_Intn n g = (g 0 mod n, \<lambda>i. g (Suc i))"

section \<open>The program\<close>

definition createMessage :: "world \<Rightarrow> string \<Rightarrow> error + Message" where
  "createMessage W input =
     (case json_Decode_Message W input of
        None \<Rightarrow> Inl errInvalidBody
      | Some message \<Rightarrow> Inr message)"

definition createRichMessageWithoutParameters :: "world \<Rightarrow> string \<Rightarrow> error + RichObjectMessage" where
  "createRichMessageWithoutParameters W input =
     (case json_Decode_RichObjectMessage W input of
        None \<Rightarrow> Inl errInvalidBody
      | Some message \<Rightarrow> Inr message)"

fun generateRandomBytes :: "nat \<Rightarrow> rng \<Rightarrow> string \<times> rng" where
  "generateRandomBytes 0 g = ([], g)"
| "generateRandomBytes (Suc n) g =
     (case rand_Intn (length letterBytes) g of
        (k, g1) \<Rightarrow> (case generateRandomBytes n g1 of
          (b, g2) \<Rightarrow> (letterBytes ! k # b, g2)))"

definition getRandomResponse :: "rng \<Rightarrow> string \<times> rng" where
  "getRandomResponse g =
     (case rand_Intn (length possibleResponses) g of
        (k, g1) \<Rightarrow> (possibleResponses ! k, g1))"

definition generateHmacForString :: "world \<Rightarrow> string \<Rightarrow> string \<Rightarrow> string \<Rightarrow> string" where
  "generateHmacForString W message random secret =
     EncodeToString (hmac_sha256 W secret (random @ message))"

text \<open>
  \<open>sendReply\<close> returns its events, the generator after the nonce was drawn, and whether
  the process is still running: \<^verbatim>\<open>os.Exit(1)\<close> ends it.
\<close>

definition sendReply :: "world \<Rightarrow> rng \<Rightarrow> string \<Rightarrow> Message \<Rightarrow> string \<Rightarrow> event list \<times> rng \<times> bool" where
  "sendReply W g server message responseText =
     (case generateRandomBytes 64 g of (random, g1) \<Rightarrow>
      let signature = generateHmacForString W responseText random (config_GetString W ''bot.secret'');
          response = \<lparr>response_Message = responseText, response_ReplyTo = object_Id (Object message)\<rparr>;
          responseBody = json_Marshal W response;
          requestURL = server @ ''ocs/v2.php/apps/spreed/api/v1/bot/'' @ target_Id (Target message) @ ''/message''
      in if \<not> http_NewRequest W ''POST'' requestURL
         then ([Log ''[Response]      Error creating request %v'' [], OsExit 1], g1, False)
         else
           let request = \<lparr>out_URL = requestURL, out_Body = responseBody,
                 out_Header = [(''Content-Type'', ''application/json''),
                               (''OCS-APIRequest'', ''true''),
                               (''X-Nextcloud-Talk-Bot-Random'', random),
                               (''X-Nextcloud-Talk-Bot-Signature'', signature)]\<rparr>
           in if \<not> client_Do W request
              then ([ClientDo request, Log ''[Response]      Error posting request %v'' []], g1, True)
              else ([ClientDo request], g1, True))"

definition callWebhook :: "world \<Rightarrow> string option \<Rightarrow> event list \<times> bool" where
  "callWebhook W jsonData =
     (let cleanedURL = TrimRight (config_GetString W ''bot.ha.url'') ''/'';
          url = cleanedURL @ ''/api/webhook/'' @ config_GetString W ''bot.ha.webhook_id'';
          post = HttpPost url ''application/json'' (case jsonData of None \<Rightarrow> [] | Some b \<Rightarrow> b)
      in case http_Post W url ''application/json'' (case jsonData of None \<Rightarrow> [] | Some b \<Rightarrow> b) of
           None \<Rightarrow> ([post, Log ''[Webhook]       POST request failed: %s'' []], False)
         | Some StatusCode \<Rightarrow>
             if StatusCode = 200
             then ([post, Log ''[Webhook]       POST request was successful!'' []], True)
             else ([post, Log ''[Webhook]       POST request failed with status code: %s'' []], False))"

definition commandToJson :: "string \<Rightarrow> event list \<times> string option" where
  "commandToJson command =
     (let words = Fields command
      in if length words \<ge> 3
         then ([], Some (''{'' @ [CHR 0x0A, CHR 0x09, CHR 0x09, CHR 0x09]
                    @ dq @ ''action'' @ dq @ '': '' @ dq @ words ! 1 @ dq @ '',''
                    @ [CHR 0x0A, CHR 0x09, CHR 0x09, CHR 0x09]
                    @ dq @ ''target'' @ dq @ '': '' @ dq @ words ! 2 @ dq
                    @ [CHR 0x0A, CHR 0x09, CHR 0x09] @ ''}''))
         else ([Log ''[Talk]          Command doesn't contain at least two words.'' []], None))"

definition messageHandling :: "world \<Rightarrow> rng \<Rightarrow> Request \<Rightarrow> event list \<times> rng" where
  "messageHandling W g r =
     (if Method r \<noteq> ''POST'' then ([], g)
      else case Body r of
        None \<Rightarrow> ([ReadAll, Log ''[Request]       Error reading body: %v'' [],
                   HttpError ''can't read body'' 400], g)
      | Some body \<Rightarrow>
          let server = Header_Get r ''X-NEXTCLOUD-TALK-BACKEND'';
              random = Header_Get r ''X-NEXTCLOUD-TALK-RANDOM'';
              signature = Header_Get r ''X-NEXTCLOUD-TALK-SIGNATURE'';
              digest = generateHmacForString W body random (config_GetString W ''bot.secret'')
          in if digest \<noteq> signature
             then ([ReadAll, Log ''[Request]       Error validating signature: %s / %s'' [digest, signature],
                    HttpError ''Invalid signature'' 400], g)
             else (case createMessage W body of
               Inl err \<Rightarrow> ([ReadAll, Log ''[Request]       Error invalid body: %s'' [],
                            HttpError ''Invalid signature'' 400], g)
             | Inr message \<Rightarrow>
                 if object_Name (Object message) = ''message''
                 then (case createRichMessageWithoutParameters W (object_Content (Object message)) of
                   Inl err \<Rightarrow> ([ReadAll, HttpError ''Received'' 200], g)
                 | Inr richMessage \<Rightarrow>
                     if Match triggerMessageRegex (rich_Message richMessage)
                     then
                       (case commandToJson (rich_Message richMessage) of (e1, json) \<Rightarrow>
                        case callWebhook W json of (e2, ok) \<Rightarrow>
                        case (if ok then getRandomResponse g
                              else (''Error calling Home Assistant'', g)) of (text, g1) \<Rightarrow>
                        case sendReply W g1 server message text of (e3, g2, running) \<Rightarrow>
                          ([ReadAll, Log ''[Talk]          Command found: %s'' [rich_Message richMessage]]
                             @ e1 @ e2 @ e3
                             @ (if running then [HttpError ''Received'' 200] else []), g2))
                     else ([ReadAll, Log ''[Talk]          Message is not command: %s'' [rich_Message richMessage],
                            HttpError ''Received'' 200], g))
                 else ([ReadAll, HttpError ''Received'' 200], g)))"

text \<open>
  What the caller of the endpoint gets back: the status and message of the first
  \<^verbatim>\<open>http.Error\<close>; status 200 and no body when the handler returns without writing, as
  \<^verbatim>\<open>net/http\<close> then answers; nothing when the process has exited.
\<close>

fun httpResponse :: "event list \<Rightarrow> (nat \<times> string) option" where
  "httpResponse [] = Some (200, [])"
| "httpResponse (HttpError msg code # es) =
     (if OsExit 1 \<in> set es then None else Some (code, msg))"
| "httpResponse (OsExit n # es) = None"
| "httpResponse (e # es) = httpResponse es"

fun outbound :: "event \<Rightarrow> bool" where
  "outbound (HttpPost url ct body) = True"
| "outbound (ClientDo req) = True"
| "outbound e = False"

section \<open>The words of the specification\<close>

text \<open>
  The specification describes the trigger as: the text starts with the marker
  \<^verbatim>\<open>@ha\<close>, followed by whitespace, a word, whitespace, and a word. Whitespace is one
  character of the pattern's class \<^verbatim>\<open>\s\<close>, a word a non-empty run of characters of
  its class \<^verbatim>\<open>\w\<close>; both are listed here character by character.
\<close>

definition whitespaceChar :: "char \<Rightarrow> bool" where
  "whitespaceChar c = (c \<in> set [CHR 0x09, CHR 0x0A, CHR 0x0C, CHR 0x0D, CHR 0x20])"

definition wordChar :: "char \<Rightarrow> bool" where
  "wordChar c = (c \<in> set (''0123456789'' @ ''ABCDEFGHIJKLMNOPQRSTUVWXYZ'' @ ''_''
                           @ ''abcdefghijklmnopqrstuvwxyz''))"

text \<open>
  The body for the automation hub is specified as a JSON text \<^verbatim>\<open>{action, target}\<close>.
  The reader below follows RFC 8259 for the texts that are one object whose member values
  are strings: it yields the members in order, with the escapes of a string resolved, and
  \<open>None\<close> for any other text. It does not take the escape \<^verbatim>\<open>\u\<close>.
\<close>

definition jsonWs :: "char \<Rightarrow> bool" where
  "jsonWs c = (c = CHR 0x20 \<or> c = CHR 0x09 \<or> c = CHR 0x0A \<or> c = CHR 0x0D)"

definition unescape :: "char \<Rightarrow> char option" where
  "unescape e =
     (if e = CHR 0x22 then Some (CHR 0x22)
      else if e = CHR 0x5C then Some (CHR 0x5C)
      else if e = CHR ''/'' then Some (CHR ''/'')
      else if e = CHR ''b'' then Some (CHR 0x08)
      else if e = CHR ''f'' then Some (CHR 0x0C)
      else if e = CHR ''n'' then Some (CHR 0x0A)
      else if e = CHR ''r'' then Some (CHR 0x0D)
      else if e = CHR ''t'' then Some (CHR 0x09)
      else None)"

text \<open>
  \<open>readString s\<close> reads a string whose opening quote has been read: it yields the
  characters of the string and the text after its closing quote.
\<close>

fun readString :: "string \<Rightarrow> (string \<times> string) option" where
  "readString [] = None"
| "readString [c] = (if c = CHR 0x22 then Some ([], []) else None)"
| "readString (c # e # es) =
     (if c = CHR 0x22 then Some ([], e # es)
      else if c = CHR 0x5C then
        (case unescape e of
           None \<Rightarrow> None
         | Some d \<Rightarrow> (case readString es of
             None \<Rightarrow> None
           | Some (v, rest) \<Rightarrow> Some (d # v, rest)))
      else if (of_char c :: nat) < 0x20 then None
      else (case readString (e # es) of
          None \<Rightarrow> None
        | Some (v, rest) \<Rightarrow> Some (c # v, rest)))"

definition readQuoted :: "string \<Rightarrow> (string \<times> string) option" where
  "readQuoted s =
     (case s of
        [] \<Rightarrow> None
      | c # cs \<Rightarrow> if c = CHR 0x22 then readString cs else None)"

definition readMember :: "string \<Rightarrow> ((string \<times> string) \<times> string) option" where
  "readMember s =
     (case readQuoted s of
        None \<Rightarrow> None
      | Some (k, r1) \<Rightarrow>
          (case dropWhile jsonWs r1 of
             [] \<Rightarrow> None
           | c # r2 \<Rightarrow>
               if c = CHR '':'' then
                 (case readQuoted (dropWhile jsonWs r2) of
                    None \<Rightarrow> None
                  | Some (v, r3) \<Rightarrow> Some ((k, v), r3))
               else None))"

text \<open>
  \<open>readMore s\<close> reads what follows a member: the closing brace, or a comma and the
  members after it. The text left after a member is shorter than the text before it; the
  test on the lengths states that for the recursion.
\<close>

fun readMore :: "string \<Rightarrow> ((string \<times> string) list \<times> string) option" where
  "readMore s =
     (case dropWhile jsonWs s of
        [] \<Rightarrow> None
      | c # cs \<Rightarrow>
          if c = CHR ''}'' then Some ([], cs)
          else if c = CHR '','' then
            (case readMember (dropWhile jsonWs cs) of
               None \<Rightarrow> None
             | Some (m, r) \<Rightarrow>
                 if length r < length s then
                   (case readMore r of
                      None \<Rightarrow> None
                    | Some (ms, rest) \<Rightarrow> Some (m # ms, rest))
                 else None)
          else None)"

definition readObject :: "string \<Rightarrow> (string \<times> string) list option" where
  "readObject s =
     (case dropWhile jsonWs s of
        [] \<Rightarrow> None
      | c # cs \<Rightarrow>
          if c = CHR ''{'' then
            (case dropWhile jsonWs cs of
               [] \<Rightarrow> None
             | d # ds \<Rightarrow>
                 if d = CHR ''}'' then (if list_all jsonWs ds then Some [] else None)
                 else (case readMember (d # ds) of
                     None \<Rightarrow> None
                   | Some (m, r) \<Rightarrow>
                       (case readMore r of
                          None \<Rightarrow> None
                        | Some (ms, rest) \<Rightarrow>
                            if list_all jsonWs rest then Some (m # ms) else None)))
          else None)"

text \<open>
  The characters that stand for themselves in a JSON string: all but the double quote, the
  backslash and the control characters below \<^verbatim>\<open>0x20\<close>.
\<close>

definition jsonPlain :: "char \<Rightarrow> bool" where
  "jsonPlain c = (c \<noteq> CHR 0x22 \<and> c \<noteq> CHR 0x5C \<and> 0x20 \<le> (of_char c :: nat))"

section \<open>An example deployment\<close>

text \<open>
  A concrete world and concrete requests, on which the theorems below are run. In the
  literals of this section a backquote stands for the double quote and a tilde for the
  backslash.
\<close>

definition lit :: "string \<Rightarrow> string" where
  "lit s = map (\<lambda>c. if c = CHR 0x60 then CHR 0x22 else if c = CHR 0x7E then CHR 0x5C else c) s"

definition envelope :: "string \<Rightarrow> string \<Rightarrow> Message" where
  "envelope content room =
     \<lparr>message_Type = [],
      Actor = \<lparr>actor_Type = [], actor_Id = [], actor_Name = []\<rparr>,
      Object = \<lparr>object_Type = [], object_Id = ''42'', object_Name = ''message'',
                 object_Content = content, object_MediaType = []\<rparr>,
      Target = \<lparr>target_Type = [], target_Id = room, target_Name = []\<rparr>\<rparr>"

definition commandContent :: string where
  "commandContent = lit ''{`message`:`@ha turn_on light1`}''"

definition chatContent :: string where
  "chatContent = lit ''{`message`:`hello @ha turn_on light1`}''"

definition commandBody :: string where
  "commandBody = lit ''{`object`:{`id`:`42`,`name`:`message`,`content`:`{~`message~`:~`@ha turn_on light1~`}`},`target`:{`id`:`room1`}}''"

definition chatBody :: string where
  "chatBody = lit ''{`object`:{`id`:`42`,`name`:`message`,`content`:`{~`message~`:~`hello @ha turn_on light1~`}`},`target`:{`id`:`room1`}}''"

definition quoteContent :: string where
  "quoteContent = lit ''{`message`:`@ha turn_on light~`x`}''"

definition quoteBody :: string where
  "quoteBody = lit ''{`object`:{`id`:`42`,`name`:`message`,`content`:`{~`message~`:~`@ha turn_on light~~~`x~`}`},`target`:{`id`:`room1`}}''"

text \<open>A body whose room id holds a newline, written \<^verbatim>\<open>\n\<close> in the JSON.\<close>

definition badRoomBody :: string where
  "badRoomBody = lit ''{`object`:{`id`:`42`,`name`:`message`,`content`:`{~`message~`:~`@ha turn_on light1~`}`},`target`:{`id`:`room~n1`}}''"

definition exampleNonce :: string where
  "exampleNonce = ''kryFMT07elszGNU18fmtAHOV29gnuBIPW3ahovCJQX4bipwDKRY5cjqxELSZ6dkr''"

text \<open>
  HMAC-SHA256 under the key \<^verbatim>\<open>secret\<close>, tabulated at the six messages the examples
  sign: the four inbound bodies after the nonce \<^verbatim>\<open>n0nce\<close>, and the reply text
  \<^verbatim>\<open>Done!\<close> and the encoded reply after the nonce the example generator yields.
\<close>

definition example_hmac :: "string \<Rightarrow> string \<Rightarrow> string" where
  "example_hmac key data =
     (if key \<noteq> ''secret'' then []
      else if data = ''n0nce'' @ commandBody then
        [CHR 0x9D, CHR 0xCA, CHR 0xAE, CHR 0xCC, CHR 0xC0, CHR 0xA2, CHR 0xB7, CHR 0xE9,
         CHR 0x53, CHR 0x9A, CHR 0x51, CHR 0x95, CHR 0x88, CHR 0x8D, CHR 0x09, CHR 0x8C,
         CHR 0xFE, CHR 0x5C, CHR 0x09, CHR 0x5B, CHR 0xC2, CHR 0xCA, CHR 0x6A, CHR 0x14,
         CHR 0xC4, CHR 0x87, CHR 0xC2, CHR 0x4A, CHR 0x58, CHR 0x6F, CHR 0xE3, CHR 0xC2]
      else if data = ''n0nce'' @ chatBody then
        [CHR 0x19, CHR 0x77, CHR 0x6F, CHR 0xDB, CHR 0xD9, CHR 0xA4, CHR 0x8F, CHR 0xA4,
         CHR 0x8D, CHR 0x66, CHR 0x01, CHR 0xCC, CHR 0xA8, CHR 0x57, CHR 0x58, CHR 0x13,
         CHR 0xE7, CHR 0x78, CHR 0x2B, CHR 0xB1, CHR 0x16, CHR 0xC9, CHR 0x17, CHR 0x07,
         CHR 0x9D, CHR 0x4D, CHR 0xDA, CHR 0xE1, CHR 0xA2, CHR 0x20, CHR 0x1F, CHR 0x1F]
      else if data = ''n0nce'' @ badRoomBody then
        [CHR 0xEE, CHR 0x3F, CHR 0x8D, CHR 0xF8, CHR 0x23, CHR 0x15, CHR 0x6B, CHR 0xB3,
         CHR 0x40, CHR 0x7C, CHR 0xED, CHR 0x3D, CHR 0x21, CHR 0x0D, CHR 0x51, CHR 0xE4,
         CHR 0x4B, CHR 0x48, CHR 0x76, CHR 0x9F, CHR 0x70, CHR 0xF4, CHR 0xCE, CHR 0xC7,
         CHR 0x90, CHR 0xA3, CHR 0x13, CHR 0x5F, CHR 0x7B, CHR 0xF6, CHR 0xCD, CHR 0xC1]
      else if data = ''n0nce'' @ quoteBody then
        [CHR 0x4F, CHR 0x2C, CHR 0xC0, CHR 0xAE, CHR 0x40, CHR 0x33, CHR 0x89, CHR 0x2F,
         CHR 0xA1, CHR 0xF3, CHR 0xDB, CHR 0x3A, CHR 0xF3, CHR 0xBE, CHR 0x4C, CHR 0x02,
         CHR 0x68, CHR 0x78, CHR 0xAF, CHR 0x56, CHR 0x73, CHR 0x7B, CHR 0x21, CHR 0xCF,
         CHR 0x53, CHR 0x72, CHR 0xD7, CHR 0x84, CHR 0x2B, CHR 0x24, CHR 0x42, CHR 0xDD]
      else if data = exampleNonce @ ''Done!'' then
        [CHR 0xFA, CHR 0x3B, CHR 0x3B, CHR 0x2A, CHR 0x8E, CHR 0x4E, CHR 0x80, CHR 0xBF,
         CHR 0x24, CHR 0xE3, CHR 0x32, CHR 0x6E, CHR 0x37, CHR 0x0C, CHR 0x4B, CHR 0xB9,
         CHR 0x86, CHR 0x26, CHR 0xF0, CHR 0x9E, CHR 0x5E, CHR 0xFF, CHR 0x32, CHR 0xD9,
         CHR 0xA2, CHR 0x27, CHR 0x9F, CHR 0x73, CHR 0x62, CHR 0x8C, CHR 0x62, CHR 0x7D]
      else if data = exampleNonce @ lit ''{`message`:`Done!`,`replyTo`:`42`}'' then
        [CHR 0xF6, CHR 0xE7, CHR 0xB3, CHR 0x39, CHR 0x1D, CHR 0xAE, CHR 0x19, CHR 0x16,
         CHR 0xA9, CHR 0x8C, CHR 0xA5, CHR 0x5B, CHR 0x56, CHR 0x80, CHR 0x01, CHR 0x5F,
         CHR 0x28, CHR 0xF1, CHR 0x68, CHR 0x7E, CHR 0xC1, CHR 0x79, CHR 0xFF, CHR 0x85,
         CHR 0xE8, CHR 0x03, CHR 0xFB, CHR 0xC3, CHR 0xDE, CHR 0x12, CHR 0xA6, CHR 0x9D]
      else [])"

text \<open>
  \<^verbatim>\<open>net/url\<close> refuses a URL that holds an ASCII control byte, and \<^verbatim>\<open>http.NewRequest\<close>
  returns that error.
\<close>

definition stringContainsCTLByte :: "string \<Rightarrow> bool" where
  "stringContainsCTLByte s = list_ex (\<lambda>c. (of_char c :: nat) < 0x20 \<or> (of_char c :: nat) = 0x7F) s"

text \<open>
  The decoders are tabulated at the four bodies and the three contents of the examples; the
  encoder is \<^verbatim>\<open>json.Marshal\<close> on strings that need no escaping.
\<close>

definition exampleWorld :: world where
  "exampleWorld =
     \<lparr>config_GetString = (\<lambda>k. if k = ''bot.secret'' then ''secret''
          else if k = ''bot.ha.url'' then ''http://ha.local:8123//''
          else if k = ''bot.ha.webhook_id'' then ''hook1'' else []),
      hmac_sha256 = example_hmac,
      json_Decode_Message = (\<lambda>b. if b = commandBody then Some (envelope commandContent ''room1'')
          else if b = chatBody then Some (envelope chatContent ''room1'')
          else if b = quoteBody then Some (envelope quoteContent ''room1'')
          else if b = badRoomBody then Some (envelope commandContent (''room'' @ [CHR 0x0A] @ ''1''))
          else None),
      json_Decode_RichObjectMessage = (\<lambda>c. if c = commandContent then Some \<lparr>rich_Message = ''@ha turn_on light1''\<rparr>
          else if c = chatContent then Some \<lparr>rich_Message = ''hello @ha turn_on light1''\<rparr>
          else if c = quoteContent then Some \<lparr>rich_Message = ''@ha turn_on light'' @ dq @ ''x''\<rparr>
          else None),
      json_Marshal = (\<lambda>r. lit ''{`message`:`'' @ response_Message r @ lit ''`,`replyTo`:`''
          @ response_ReplyTo r @ lit ''`}''),
      http_Post = (\<lambda>url contentType body.
          if url = ''http://ha.local:8123/api/webhook/hook1'' then Some 200 else None),
      http_NewRequest = (\<lambda>method url. \<not> stringContainsCTLByte url),
      client_Do = (\<lambda>request. True)\<rparr>"

definition exampleRng :: rng where
  "exampleRng = (\<lambda>i. 7 * i + 3)"

definition signedRequest :: "string \<Rightarrow> string \<Rightarrow> string \<Rightarrow> Request" where
  "signedRequest method body signature =
     \<lparr>Method = method, Body = Some body,
      Header_Get = (\<lambda>h. if h = ''X-NEXTCLOUD-TALK-BACKEND'' then ''https://cloud.example/''
          else if h = ''X-NEXTCLOUD-TALK-RANDOM'' then ''n0nce''
          else if h = ''X-NEXTCLOUD-TALK-SIGNATURE'' then signature else [])\<rparr>"

definition commandRequest :: Request where
  "commandRequest = signedRequest ''POST'' commandBody
     ''9dcaaeccc0a2b7e9539a5195888d098cfe5c095bc2ca6a14c487c24a586fe3c2''"

definition chatRequest :: Request where
  "chatRequest = signedRequest ''POST'' chatBody
     ''19776fdbd9a48fa48d6601cca8575813e7782bb116c917079d4ddae1a2201f1f''"

definition badRoomRequest :: Request where
  "badRoomRequest = signedRequest ''POST'' badRoomBody
     ''ee3f8df823156bb3407ced3d210d51e44b48769f70f4cec790a3135f7bf6cdc1''"

definition quoteRequest :: Request where
  "quoteRequest = signedRequest ''POST'' quoteBody
     ''4f2cc0ae4033892fa1f3db3af3be4c026878af56737b21cf5372d7842b2442dd''"

text \<open>The command request again, with a signature that is not the digest of its body.\<close>

definition forgedRequest :: Request where
  "forgedRequest = signedRequest ''POST'' commandBody
     ''0000000000000000000000000000000000000000000000000000000000000000''"

definition getRequest :: Request where
  "getRequest = signedRequest ''GET'' commandBody
     ''9dcaaeccc0a2b7e9539a5195888d098cfe5c095bc2ca6a14c487c24a586fe3c2''"

text \<open>What the program posts to the automation hub and to the chat backend in the examples.\<close>

definition commandPosted :: string where
  "commandPosted = ''{'' @ [CHR 0x0A, CHR 0x09, CHR 0x09, CHR 0x09] @ lit ''`action`: `turn_on`,''
     @ [CHR 0x0A, CHR 0x09, CHR 0x09, CHR 0x09] @ lit ''`target`: `light1`''
     @ [CHR 0x0A, CHR 0x09, CHR 0x09] @ ''}''"

definition quotePosted :: string where
  "quotePosted = ''{'' @ [CHR 0x0A, CHR 0x09, CHR 0x09, CHR 0x09] @ lit ''`action`: `turn_on`,''
     @ [CHR 0x0A, CHR 0x09, CHR 0x09, CHR 0x09] @ lit ''`target`: `light`x`''
     @ [CHR 0x0A, CHR 0x09, CHR 0x09] @ ''}''"

definition exampleReply :: OutRequest where
  "exampleReply =
     \<lparr>out_URL = ''https://cloud.example/ocs/v2.php/apps/spreed/api/v1/bot/room1/message'',
      out_Body = lit ''{`message`:`Done!`,`replyTo`:`42`}'',
      out_Header =
        [(''Content-Type'', ''application/json''),
         (''OCS-APIRequest'', ''true''),
         (''X-Nextcloud-Talk-Bot-Random'', exampleNonce),
         (''X-Nextcloud-Talk-Bot-Signature'',
          ''fa3b3b2a8e4e80bf24e3326e370c4bb98626f09e5eff32d9a2279f73628c627d'')]\<rparr>"

section \<open>The trigger pattern\<close>

lemma Match_One:
  "Match (One a # is) s \<longleftrightarrow> (\<exists>c rest. s = c # rest \<and> atomOk a c \<and> Match is rest)"
  by (cases s) auto

lemma Match_OneOrMore:
  "Match (OneOrMore a # is) s \<longleftrightarrow>
     (\<exists>w rest. s = w @ rest \<and> w \<noteq> [] \<and> list_all (atomOk a) w \<and> Match is rest)"
proof (induction s)
  case Nil
  then show ?case by simp
next
  case (Cons c cs)
  show ?case
  proof
    assume m: "Match (OneOrMore a # is) (c # cs)"
    then have ok: "atomOk a c" by simp
    from m consider "Match is cs" | "Match (OneOrMore a # is) cs" by auto
    then show "\<exists>w rest. c # cs = w @ rest \<and> w \<noteq> [] \<and> list_all (atomOk a) w \<and> Match is rest"
    proof cases
      case 1
      with ok have "c # cs = [c] @ cs \<and> [c] \<noteq> [] \<and> list_all (atomOk a) [c] \<and> Match is cs"
        by simp
      then show ?thesis by blast
    next
      case 2
      with Cons.IH obtain w rest where
        "cs = w @ rest" "w \<noteq> []" "list_all (atomOk a) w" "Match is rest" by blast
      with ok have "c # cs = (c # w) @ rest \<and> c # w \<noteq> [] \<and> list_all (atomOk a) (c # w)
          \<and> Match is rest"
        by simp
      then show ?thesis by blast
    qed
  next
    assume "\<exists>w rest. c # cs = w @ rest \<and> w \<noteq> [] \<and> list_all (atomOk a) w \<and> Match is rest"
    then obtain w rest where w: "c # cs = w @ rest" "w \<noteq> []" "list_all (atomOk a) w" "Match is rest"
      by blast
    then obtain w' where w': "w = c # w'" by (cases w) auto
    with w have ok: "atomOk a c" and cs: "cs = w' @ rest" and all: "list_all (atomOk a) w'" by auto
    show "Match (OneOrMore a # is) (c # cs)"
    proof (cases "w' = []")
      case True
      with cs w(4) ok show ?thesis by simp
    next
      case False
      with cs all w(4) Cons.IH have "Match (OneOrMore a # is) cs" by blast
      with ok show ?thesis by simp
    qed
  qed
qed

lemma Match_trigger:
  "Match triggerMessageRegex t \<longleftrightarrow>
     (\<exists>s1 w1 s2 w2 rest. t = ''@ha'' @ s1 # w1 @ s2 # w2 @ rest
        \<and> atomOk PerlSpace s1 \<and> w1 \<noteq> [] \<and> list_all (atomOk PerlWord) w1
        \<and> atomOk PerlSpace s2 \<and> w2 \<noteq> [] \<and> list_all (atomOk PerlWord) w2)"
  (is "?L \<longleftrightarrow> ?R")
proof
  assume ?L
  then obtain r1 where 1: "t = CHR ''@'' # r1" "Match (tl triggerMessageRegex) r1"
    unfolding triggerMessageRegex_def by (auto simp: Match_One)
  then obtain r2 where 2: "r1 = CHR ''h'' # r2" "Match (tl (tl triggerMessageRegex)) r2"
    unfolding triggerMessageRegex_def by (auto simp: Match_One)
  then obtain r3 where 3: "r2 = CHR ''a'' # r3" "Match (tl (tl (tl triggerMessageRegex))) r3"
    unfolding triggerMessageRegex_def by (auto simp: Match_One)
  then obtain s1 r4 where 4: "r3 = s1 # r4" "atomOk PerlSpace s1"
      "Match [OneOrMore PerlWord, One PerlSpace, OneOrMore PerlWord] r4"
    unfolding triggerMessageRegex_def by (auto simp: Match_One)
  then obtain w1 r5 where 5: "r4 = w1 @ r5" "w1 \<noteq> []" "list_all (atomOk PerlWord) w1"
      "Match [One PerlSpace, OneOrMore PerlWord] r5"
    using Match_OneOrMore [of PerlWord "[One PerlSpace, OneOrMore PerlWord]" r4] by blast
  then obtain s2 r6 where 6: "r5 = s2 # r6" "atomOk PerlSpace s2" "Match [OneOrMore PerlWord] r6"
    using Match_One [of PerlSpace "[OneOrMore PerlWord]" r5] by blast
  then obtain w2 rest where 7: "r6 = w2 @ rest" "w2 \<noteq> []" "list_all (atomOk PerlWord) w2"
    using Match_OneOrMore [of PerlWord "[]" r6] by blast
  have "t = ''@ha'' @ s1 # w1 @ s2 # w2 @ rest"
    using 1(1) 2(1) 3(1) 4(1) 5(1) 6(1) 7(1) by simp
  with 4(2) 5(2,3) 6(2) 7(2,3) show ?R by blast
next
  assume ?R
  then obtain s1 w1 s2 w2 rest where t: "t = ''@ha'' @ s1 # w1 @ s2 # w2 @ rest"
    and s1: "atomOk PerlSpace s1" and w1: "w1 \<noteq> []" "list_all (atomOk PerlWord) w1"
    and s2: "atomOk PerlSpace s2" and w2: "w2 \<noteq> []" "list_all (atomOk PerlWord) w2"
    by blast
  have a: "Match [OneOrMore PerlWord] (w2 @ rest)"
    using w2 Match_OneOrMore [of PerlWord "[]" "w2 @ rest"] by auto
  have b: "Match [One PerlSpace, OneOrMore PerlWord] (s2 # w2 @ rest)"
    using a s2 by simp
  have c: "Match [OneOrMore PerlWord, One PerlSpace, OneOrMore PerlWord] (w1 @ s2 # w2 @ rest)"
    using b w1 Match_OneOrMore [of PerlWord "[One PerlSpace, OneOrMore PerlWord]" "w1 @ s2 # w2 @ rest"]
    by blast
  show ?L
    unfolding triggerMessageRegex_def t using c s1 by simp
qed

lemma PerlSpace_whitespaceChar: "atomOk PerlSpace c = whitespaceChar c"
  by (auto simp: whitespaceChar_def)

lemma wordChar_PerlWord: "wordChar c \<Longrightarrow> atomOk PerlWord c"
  unfolding wordChar_def by (auto simp: Let_def)

lemma in_range_chars:
  "lo \<le> (of_char c :: nat) \<Longrightarrow> (of_char c :: nat) \<le> hi \<Longrightarrow> c \<in> set (map char_of [lo..<Suc hi])"
proof -
  assume "lo \<le> (of_char c :: nat)" "(of_char c :: nat) \<le> hi"
  then have "(of_char c :: nat) \<in> set [lo..<Suc hi]" by auto
  then have "char_of (of_char c :: nat) \<in> char_of ` set [lo..<Suc hi]" by (rule imageI)
  then show ?thesis by simp
qed

lemma digit_chars: "map char_of [48..<Suc 57 :: nat] = ''0123456789''"
  by code_simp

lemma upper_chars: "map char_of [65..<Suc 90 :: nat] = ''ABCDEFGHIJKLMNOPQRSTUVWXYZ''"
  by code_simp

lemma lower_chars: "map char_of [97..<Suc 122 :: nat] = ''abcdefghijklmnopqrstuvwxyz''"
  by code_simp

lemma underscore_char: "map char_of [95..<Suc 95 :: nat] = ''_''"
  by code_simp

lemma PerlWord_wordChar: "atomOk PerlWord c = wordChar c"
proof
  assume "atomOk PerlWord c"
  then consider "48 \<le> (of_char c :: nat) \<and> (of_char c :: nat) \<le> 57"
    | "65 \<le> (of_char c :: nat) \<and> (of_char c :: nat) \<le> 90"
    | "95 \<le> (of_char c :: nat) \<and> (of_char c :: nat) \<le> 95"
    | "97 \<le> (of_char c :: nat) \<and> (of_char c :: nat) \<le> 122"
    by (auto simp: Let_def)
  then show "wordChar c"
  proof cases
    case 1
    then have "c \<in> set ''0123456789''"
      using in_range_chars [of 48 c 57] digit_chars by simp
    then show ?thesis unfolding wordChar_def set_append by blast
  next
    case 2
    then have "c \<in> set ''ABCDEFGHIJKLMNOPQRSTUVWXYZ''"
      using in_range_chars [of 65 c 90] upper_chars by simp
    then show ?thesis unfolding wordChar_def set_append by blast
  next
    case 3
    then have "c \<in> set ''_''"
      using in_range_chars [of 95 c 95] underscore_char by simp
    then show ?thesis unfolding wordChar_def set_append by blast
  next
    case 4
    then have "c \<in> set ''abcdefghijklmnopqrstuvwxyz''"
      using in_range_chars [of 97 c 122] lower_chars by simp
    then show ?thesis unfolding wordChar_def set_append by blast
  qed
next
  assume "wordChar c"
  then show "atomOk PerlWord c" by (rule wordChar_PerlWord)
qed

section \<open>Splitting a command into fields\<close>

lemma PerlWord_ascii: "atomOk PerlWord c \<Longrightarrow> (of_char c :: nat) < 0x80 \<and> \<not> IsSpace (of_char c)"
  by (auto simp: IsSpace_def Let_def)

lemma PerlSpace_ascii: "atomOk PerlSpace c \<Longrightarrow> (of_char c :: nat) < 0x80 \<and> IsSpace (of_char c)"
  by (auto simp: IsSpace_def)

lemma fieldsFrom_ascii:
  "(of_char c :: nat) < 0x80 \<Longrightarrow>
   fieldsFrom cur (c # cs) =
     (if IsSpace (of_char c) then (if cur = [] then fieldsFrom [] cs else cur # fieldsFrom [] cs)
      else fieldsFrom (cur @ [c]) cs)"
  by simp

lemma fieldsFrom_word:
  "list_all (atomOk PerlWord) w \<Longrightarrow> fieldsFrom cur (w @ rest) = fieldsFrom (cur @ w) rest"
proof (induction w arbitrary: cur)
  case Nil
  then show ?case by simp
next
  case (Cons c w)
  from Cons.prems have cw: "atomOk PerlWord c" and w: "list_all (atomOk PerlWord) w"
    by (simp_all del: atomOk.simps)
  have c: "(of_char c :: nat) < 0x80" "\<not> IsSpace (of_char c)"
    using PerlWord_ascii [OF cw] by blast+
  have "fieldsFrom cur ((c # w) @ rest) = fieldsFrom (cur @ [c]) (w @ rest)"
    using c by (simp only: append_Cons fieldsFrom_ascii if_False)
  also have "\<dots> = fieldsFrom ((cur @ [c]) @ w) rest"
    using Cons.IH [OF w] .
  finally show ?case by simp
qed

lemma fieldsFrom_space:
  "atomOk PerlSpace c \<Longrightarrow> cur \<noteq> [] \<Longrightarrow> fieldsFrom cur (c # cs) = cur # fieldsFrom [] cs"
  using PerlSpace_ascii [of c] by (simp only: fieldsFrom_ascii if_True if_False)

lemma fieldsFrom_open: "cur \<noteq> [] \<Longrightarrow> fieldsFrom cur s \<noteq> []"
  by (induction cur s rule: fieldsFrom.induct) (simp_all del: DecodeRuneInString.simps)

lemma Fields_trigger:
  assumes "atomOk PerlSpace s1" "w1 \<noteq> []" "list_all (atomOk PerlWord) w1"
    "atomOk PerlSpace s2" "w2 \<noteq> []" "list_all (atomOk PerlWord) w2"
  shows "Fields (''@ha'' @ s1 # w1 @ s2 # w2 @ rest) = ''@ha'' # w1 # fieldsFrom w2 rest"
proof -
  have "Fields (''@ha'' @ s1 # w1 @ s2 # w2 @ rest) = fieldsFrom ''@ha'' (s1 # w1 @ s2 # w2 @ rest)"
    by (simp add: Fields_def IsSpace_def)
  also have "\<dots> = ''@ha'' # fieldsFrom [] (w1 @ s2 # w2 @ rest)"
    using assms(1) by (rule fieldsFrom_space) simp
  also have "fieldsFrom [] (w1 @ s2 # w2 @ rest) = fieldsFrom w1 (s2 # w2 @ rest)"
    using fieldsFrom_word [OF assms(3), of "[]"] by simp
  also have "\<dots> = w1 # fieldsFrom [] (w2 @ rest)"
    using assms(4,2) by (rule fieldsFrom_space)
  also have "fieldsFrom [] (w2 @ rest) = fieldsFrom w2 rest"
    using fieldsFrom_word [OF assms(6), of "[]"] by simp
  finally show ?thesis .
qed

lemma Match_Fields:
  assumes "Match triggerMessageRegex t"
  shows "\<exists>w1 tok toks. Fields t = ''@ha'' # w1 # tok # toks \<and> list_all (atomOk PerlWord) w1"
proof -
  from assms obtain s1 w1 s2 w2 rest where t: "t = ''@ha'' @ s1 # w1 @ s2 # w2 @ rest"
    and h: "atomOk PerlSpace s1" "w1 \<noteq> []" "list_all (atomOk PerlWord) w1"
      "atomOk PerlSpace s2" "w2 \<noteq> []" "list_all (atomOk PerlWord) w2"
    unfolding Match_trigger by blast
  have "Fields t = ''@ha'' # w1 # fieldsFrom w2 rest"
    unfolding t using h by (rule Fields_trigger)
  moreover have "fieldsFrom w2 rest \<noteq> []" using h(5) by (rule fieldsFrom_open)
  ultimately show ?thesis using h(3) by (cases "fieldsFrom w2 rest") auto
qed

lemma commandToJson_Match:
  assumes "Match triggerMessageRegex t"
  shows "commandToJson t =
     ([], Some (''{'' @ [CHR 0x0A, CHR 0x09, CHR 0x09, CHR 0x09]
                    @ dq @ ''action'' @ dq @ '': '' @ dq @ Fields t ! 1 @ dq @ '',''
                    @ [CHR 0x0A, CHR 0x09, CHR 0x09, CHR 0x09]
                    @ dq @ ''target'' @ dq @ '': '' @ dq @ Fields t ! 2 @ dq
                    @ [CHR 0x0A, CHR 0x09, CHR 0x09] @ ''}''))"
proof -
  from Match_Fields [OF assms] have "3 \<le> length (Fields t)" by auto
  then show ?thesis unfolding commandToJson_def Let_def by simp
qed

section \<open>The parts of the handler\<close>

lemma getRandomResponse_Done: "getRandomResponse g = (''Done!'', \<lambda>i. g (Suc i))"
  by (simp add: getRandomResponse_def rand_Intn_def possibleResponses_def)

lemma generateRandomBytes_eq:
  "generateRandomBytes n g =
     (map (\<lambda>i. letterBytes ! (g i mod length letterBytes)) [0..<n], \<lambda>i. g (i + n))"
proof (induction n arbitrary: g)
  case 0
  then show ?case by simp
next
  case (Suc n)
  have "[0..<Suc n] = 0 # map Suc [0..<n]"
    by (simp add: upt_conv_Cons map_Suc_upt del: upt_Suc)
  then show ?case
    by (simp add: Suc.IH rand_Intn_def comp_def del: upt_Suc)
qed

lemma of_char_lt_256: "(of_char c :: nat) < 256"
  by (cases c) simp

lemma EncodeToString_hex: "set (EncodeToString src) \<subseteq> set ''0123456789abcdef''"
proof -
  have nth: "hextable ! k \<in> set hextable" if "k < 16" for k
    using that by (intro nth_mem) (simp add: hextable_def)
  have hi: "(of_char c :: nat) div 16 < 16" for c
    using less_mult_imp_div_less [of "of_char c" 16 16] of_char_lt_256 [of c] by simp
  have lo: "(of_char c :: nat) mod 16 < 16" for c
    by simp
  have "set (EncodeToString src) \<subseteq> set hextable"
    unfolding EncodeToString_def using nth [OF hi] nth [OF lo] by auto
  then show ?thesis by (simp only: hextable_def)
qed

lemma callWebhook_fst:
  "\<exists>l. fst (callWebhook W j) =
     [HttpPost (TrimRight (config_GetString W ''bot.ha.url'') ''/'' @ ''/api/webhook/''
                 @ config_GetString W ''bot.ha.webhook_id'')
        ''application/json'' (case j of None \<Rightarrow> [] | Some b \<Rightarrow> b),
      Log l []]"
  unfolding callWebhook_def Let_def by (simp split: option.splits)

lemma callWebhook_snd:
  "snd (callWebhook W j) \<longleftrightarrow>
     http_Post W (TrimRight (config_GetString W ''bot.ha.url'') ''/'' @ ''/api/webhook/''
                 @ config_GetString W ''bot.ha.webhook_id'')
        ''application/json'' (case j of None \<Rightarrow> [] | Some b \<Rightarrow> b) = Some 200"
  unfolding callWebhook_def Let_def by (simp split: option.splits)

lemma sendReply_created:
  assumes "http_NewRequest W ''POST''
     (server @ ''ocs/v2.php/apps/spreed/api/v1/bot/'' @ target_Id (Target message) @ ''/message'')"
  shows "\<exists>tail. sendReply W g server message text =
     (ClientDo
        \<lparr>out_URL = server @ ''ocs/v2.php/apps/spreed/api/v1/bot/'' @ target_Id (Target message)
                     @ ''/message'',
         out_Body = json_Marshal W \<lparr>response_Message = text,
                      response_ReplyTo = object_Id (Object message)\<rparr>,
         out_Header =
           [(''Content-Type'', ''application/json''),
            (''OCS-APIRequest'', ''true''),
            (''X-Nextcloud-Talk-Bot-Random'', fst (generateRandomBytes 64 g)),
            (''X-Nextcloud-Talk-Bot-Signature'',
             generateHmacForString W text (fst (generateRandomBytes 64 g))
               (config_GetString W ''bot.secret''))]\<rparr> # tail,
      snd (generateRandomBytes 64 g), True)
     \<and> (tail = [] \<or> tail = [Log ''[Response]      Error posting request %v'' []])"
  using assms unfolding sendReply_def Let_def split_beta by simp

lemma sendReply_exit:
  assumes "\<not> http_NewRequest W ''POST''
     (server @ ''ocs/v2.php/apps/spreed/api/v1/bot/'' @ target_Id (Target message) @ ''/message'')"
  shows "sendReply W g server message text =
     ([Log ''[Response]      Error creating request %v'' [], OsExit 1],
      snd (generateRandomBytes 64 g), False)"
  using assms unfolding sendReply_def Let_def split_beta by simp

lemma messageHandling_command:
  assumes "Method r = ''POST''" "Body r = Some body"
    "Header_Get r ''X-NEXTCLOUD-TALK-SIGNATURE'' =
       generateHmacForString W body (Header_Get r ''X-NEXTCLOUD-TALK-RANDOM'')
         (config_GetString W ''bot.secret'')"
    "json_Decode_Message W body = Some message"
    "object_Name (Object message) = ''message''"
    "json_Decode_RichObjectMessage W (object_Content (Object message)) = Some rich"
    "Match triggerMessageRegex (rich_Message rich)"
  shows "fst (messageHandling W g r) =
     [ReadAll, Log ''[Talk]          Command found: %s'' [rich_Message rich]]
       @ fst (callWebhook W (snd (commandToJson (rich_Message rich))))
       @ fst (sendReply W
                (if snd (callWebhook W (snd (commandToJson (rich_Message rich))))
                 then (\<lambda>i. g (Suc i)) else g)
                (Header_Get r ''X-NEXTCLOUD-TALK-BACKEND'') message
                (if snd (callWebhook W (snd (commandToJson (rich_Message rich))))
                 then ''Done!'' else ''Error calling Home Assistant''))
       @ (if snd (snd (sendReply W
                (if snd (callWebhook W (snd (commandToJson (rich_Message rich))))
                 then (\<lambda>i. g (Suc i)) else g)
                (Header_Get r ''X-NEXTCLOUD-TALK-BACKEND'') message
                (if snd (callWebhook W (snd (commandToJson (rich_Message rich))))
                 then ''Done!'' else ''Error calling Home Assistant'')))
          then [HttpError ''Received'' 200] else [])"
proof -
  have e1: "fst (commandToJson (rich_Message rich)) = []"
    using commandToJson_Match [OF assms(7)] by simp
  show ?thesis
    using assms e1 unfolding messageHandling_def Let_def split_beta
    by (simp add: createMessage_def createRichMessageWithoutParameters_def getRandomResponse_Done)
qed

lemma messageHandling_chat:
  assumes "Method r = ''POST''" "Body r = Some body"
    "Header_Get r ''X-NEXTCLOUD-TALK-SIGNATURE'' =
       generateHmacForString W body (Header_Get r ''X-NEXTCLOUD-TALK-RANDOM'')
         (config_GetString W ''bot.secret'')"
    "json_Decode_Message W body = Some message"
    "object_Name (Object message) = ''message''"
    "json_Decode_RichObjectMessage W (object_Content (Object message)) = Some rich"
    "\<not> Match triggerMessageRegex (rich_Message rich)"
  shows "messageHandling W g r =
     ([ReadAll, Log ''[Talk]          Message is not command: %s'' [rich_Message rich],
       HttpError ''Received'' 200], g)"
  using assms unfolding messageHandling_def Let_def split_beta
  by (simp add: createMessage_def createRichMessageWithoutParameters_def)

lemma TrimRight_suffix: "\<exists>n. s = TrimRight s [c] @ replicate n c"
proof -
  let ?t = "takeWhile (\<lambda>x. x \<in> set [c]) (rev s)"
  have "rev s = ?t @ dropWhile (\<lambda>x. x \<in> set [c]) (rev s)" by simp
  then have "rev (rev s) = rev (?t @ dropWhile (\<lambda>x. x \<in> set [c]) (rev s))" by simp
  then have 1: "s = TrimRight s [c] @ rev ?t"
    unfolding TrimRight_def by (simp only: rev_rev_ident rev_append)
  have "\<forall>y \<in> set ?t. y = c" using set_takeWhileD [of _ "\<lambda>x. x \<in> set [c]" "rev s"] by auto
  then have "replicate (length ?t) c = ?t" by (rule replicate_length_same)
  then have "rev ?t = replicate (length ?t) c" by (metis rev_replicate)
  with 1 have "s = TrimRight s [c] @ replicate (length ?t) c" by simp
  then show ?thesis ..
qed

lemma TrimRight_last: "TrimRight s [c] \<noteq> p @ [c]"
proof
  assume "TrimRight s [c] = p @ [c]"
  then have "dropWhile (\<lambda>x. x = c) (rev s) = c # rev p"
    unfolding TrimRight_def by (simp add: rev_swap)
  then show False
    using hd_dropWhile [of "\<lambda>x. x = c" "rev s"] by simp
qed

lemma callWebhook_no_signature_log:
  "Log ''[Request]       Error validating signature: %s / %s'' args \<notin> set (fst (callWebhook W j))"
  unfolding callWebhook_def Let_def by (simp split: option.splits)

lemma sendReply_no_signature_log:
  "Log ''[Request]       Error validating signature: %s / %s'' args
     \<notin> set (fst (sendReply W g server message text))"
  unfolding sendReply_def Let_def split_beta by simp

lemma commandToJson_no_signature_log:
  "Log ''[Request]       Error validating signature: %s / %s'' args \<notin> set (fst (commandToJson t))"
  unfolding commandToJson_def Let_def by simp

section \<open>Runs of the examples\<close>

lemma example_nonce:
  "fst (generateRandomBytes 64 (snd (getRandomResponse exampleRng))) = exampleNonce"
  by code_simp

lemma get_run: "messageHandling exampleWorld exampleRng getRequest = ([], exampleRng)"
  by (simp add: messageHandling_def getRequest_def signedRequest_def)

lemma chat_run:
  "fst (messageHandling exampleWorld exampleRng chatRequest) =
     [ReadAll, Log ''[Talk]          Message is not command: %s'' [''hello @ha turn_on light1''],
      HttpError ''Received'' 200]"
  by code_simp

lemma forged_run:
  "fst (messageHandling exampleWorld exampleRng forgedRequest) =
     [ReadAll,
      Log ''[Request]       Error validating signature: %s / %s''
        [''9dcaaeccc0a2b7e9539a5195888d098cfe5c095bc2ca6a14c487c24a586fe3c2'',
         ''0000000000000000000000000000000000000000000000000000000000000000''],
      HttpError ''Invalid signature'' 400]"
  by code_simp

lemma command_run:
  "fst (messageHandling exampleWorld exampleRng commandRequest) =
     [ReadAll,
      Log ''[Talk]          Command found: %s'' [''@ha turn_on light1''],
      HttpPost ''http://ha.local:8123/api/webhook/hook1'' ''application/json'' commandPosted,
      Log ''[Webhook]       POST request was successful!'' [],
      ClientDo exampleReply,
      HttpError ''Received'' 200]"
  by code_simp

lemma bad_room_run:
  "fst (messageHandling exampleWorld exampleRng badRoomRequest) =
     [ReadAll,
      Log ''[Talk]          Command found: %s'' [''@ha turn_on light1''],
      HttpPost ''http://ha.local:8123/api/webhook/hook1'' ''application/json'' commandPosted,
      Log ''[Webhook]       POST request was successful!'' [],
      Log ''[Response]      Error creating request %v'' [],
      OsExit 1]"
  by code_simp

lemma quote_run:
  "fst (messageHandling exampleWorld exampleRng quoteRequest) =
     [ReadAll,
      Log ''[Talk]          Command found: %s'' [lit ''@ha turn_on light`x''],
      HttpPost ''http://ha.local:8123/api/webhook/hook1'' ''application/json'' quotePosted,
      Log ''[Webhook]       POST request was successful!'' [],
      ClientDo exampleReply,
      HttpError ''Received'' 200]"
  by code_simp

section \<open>The signature gate\<close>

text \<open>
  C1. For every inbound request, a command is posted to the automation endpoint or a reply
  is posted to the chat backend only if the request is a POST whose body was read and whose
  signature header equals the hex HMAC-SHA256 of nonce followed by body under the configured
  secret. When the signature differs, the handler logs the two values, answers 400 and does
  nothing else.
\<close>

theorem signature_gate:
  "((\<exists>e \<in> set (fst (messageHandling W g r)). outbound e) \<longrightarrow>
      Method r = ''POST'' \<and>
      (\<exists>b. Body r = Some b \<and>
        Header_Get r ''X-NEXTCLOUD-TALK-SIGNATURE'' =
          generateHmacForString W b (Header_Get r ''X-NEXTCLOUD-TALK-RANDOM'')
            (config_GetString W ''bot.secret'')))
   \<and> (Method r = ''POST'' \<and> Body r = Some body \<and>
        Header_Get r ''X-NEXTCLOUD-TALK-SIGNATURE'' \<noteq>
          generateHmacForString W body (Header_Get r ''X-NEXTCLOUD-TALK-RANDOM'')
            (config_GetString W ''bot.secret'') \<longrightarrow>
        messageHandling W g r =
          ([ReadAll,
            Log ''[Request]       Error validating signature: %s / %s''
              [generateHmacForString W body (Header_Get r ''X-NEXTCLOUD-TALK-RANDOM'')
                 (config_GetString W ''bot.secret''),
               Header_Get r ''X-NEXTCLOUD-TALK-SIGNATURE''],
            HttpError ''Invalid signature'' 400], g))"
proof (rule conjI)
  show "(\<exists>e \<in> set (fst (messageHandling W g r)). outbound e) \<longrightarrow>
      Method r = ''POST'' \<and>
      (\<exists>b. Body r = Some b \<and>
        Header_Get r ''X-NEXTCLOUD-TALK-SIGNATURE'' =
          generateHmacForString W b (Header_Get r ''X-NEXTCLOUD-TALK-RANDOM'')
            (config_GetString W ''bot.secret''))"
    unfolding messageHandling_def Let_def split_beta
    by (auto split: if_splits option.splits sum.splits)
  show "Method r = ''POST'' \<and> Body r = Some body \<and>
        Header_Get r ''X-NEXTCLOUD-TALK-SIGNATURE'' \<noteq>
          generateHmacForString W body (Header_Get r ''X-NEXTCLOUD-TALK-RANDOM'')
            (config_GetString W ''bot.secret'') \<longrightarrow>
        messageHandling W g r =
          ([ReadAll,
            Log ''[Request]       Error validating signature: %s / %s''
              [generateHmacForString W body (Header_Get r ''X-NEXTCLOUD-TALK-RANDOM'')
                 (config_GetString W ''bot.secret''),
               Header_Get r ''X-NEXTCLOUD-TALK-SIGNATURE''],
            HttpError ''Invalid signature'' 400], g)"
    unfolding messageHandling_def Let_def by auto
qed

theorem signature_gate_witness:
  "(\<exists>e \<in> set (fst (messageHandling exampleWorld exampleRng commandRequest)). outbound e)
   \<and> Method commandRequest = ''POST''
   \<and> (\<exists>b. Body commandRequest = Some b \<and>
        Header_Get commandRequest ''X-NEXTCLOUD-TALK-SIGNATURE'' =
          generateHmacForString exampleWorld b (Header_Get commandRequest ''X-NEXTCLOUD-TALK-RANDOM'')
            (config_GetString exampleWorld ''bot.secret''))
   \<and> Method forgedRequest = ''POST'' \<and> Body forgedRequest = Some commandBody
   \<and> Header_Get forgedRequest ''X-NEXTCLOUD-TALK-SIGNATURE'' \<noteq>
          generateHmacForString exampleWorld commandBody
            (Header_Get forgedRequest ''X-NEXTCLOUD-TALK-RANDOM'')
            (config_GetString exampleWorld ''bot.secret'')
   \<and> messageHandling exampleWorld exampleRng forgedRequest =
          ([ReadAll,
            Log ''[Request]       Error validating signature: %s / %s''
              [generateHmacForString exampleWorld commandBody
                 (Header_Get forgedRequest ''X-NEXTCLOUD-TALK-RANDOM'')
                 (config_GetString exampleWorld ''bot.secret''),
               Header_Get forgedRequest ''X-NEXTCLOUD-TALK-SIGNATURE''],
            HttpError ''Invalid signature'' 400], exampleRng)"
proof -
  have h1: "\<exists>e \<in> set (fst (messageHandling exampleWorld exampleRng commandRequest)). outbound e"
    unfolding command_run by simp
  have h2: "Method forgedRequest = ''POST'' \<and> Body forgedRequest = Some commandBody
     \<and> Header_Get forgedRequest ''X-NEXTCLOUD-TALK-SIGNATURE'' \<noteq>
          generateHmacForString exampleWorld commandBody
            (Header_Get forgedRequest ''X-NEXTCLOUD-TALK-RANDOM'')
            (config_GetString exampleWorld ''bot.secret'')"
    by code_simp
  show ?thesis
    using h1 h2
      signature_gate [where W = exampleWorld and g = exampleRng and r = commandRequest]
      signature_gate [where W = exampleWorld and g = exampleRng and r = forgedRequest
        and body = commandBody]
    by blast
qed

section \<open>Signing and verifying\<close>

text \<open>
  C2. The handler verifies by recomputing the digest of nonce followed by body under the
  configured secret and comparing it with the signature header. For every payload \<open>P\<close>,
  nonce \<open>R\<close> and secret, a request that carries the signature made by
  \<open>generateHmacForString\<close> for \<open>P\<close> and \<open>R\<close> passes the comparison: the handler goes
  on to decode \<open>P\<close>, its run is the one that decoding decides (400 for a body that does
  not decode, otherwise the handling of the message), and it reports no signature error.
\<close>

theorem hmac_round_trip:
  assumes "Method r = ''POST''" "Body r = Some P"
    "Header_Get r ''X-NEXTCLOUD-TALK-RANDOM'' = R"
    "Header_Get r ''X-NEXTCLOUD-TALK-SIGNATURE'' =
       generateHmacForString W P R (config_GetString W ''bot.secret'')"
  shows "messageHandling W g r =
       (case createMessage W P of
          Inl err \<Rightarrow> ([ReadAll, Log ''[Request]       Error invalid body: %s'' [],
                       HttpError ''Invalid signature'' 400], g)
        | Inr message \<Rightarrow>
            if object_Name (Object message) = ''message''
            then (case createRichMessageWithoutParameters W (object_Content (Object message)) of
              Inl err \<Rightarrow> ([ReadAll, HttpError ''Received'' 200], g)
            | Inr richMessage \<Rightarrow>
                if Match triggerMessageRegex (rich_Message richMessage)
                then
                  (case commandToJson (rich_Message richMessage) of (e1, json) \<Rightarrow>
                   case callWebhook W json of (e2, ok) \<Rightarrow>
                   case (if ok then getRandomResponse g
                         else (''Error calling Home Assistant'', g)) of (text, g1) \<Rightarrow>
                   case sendReply W g1 (Header_Get r ''X-NEXTCLOUD-TALK-BACKEND'') message text of
                     (e3, g2, running) \<Rightarrow>
                     ([ReadAll, Log ''[Talk]          Command found: %s'' [rich_Message richMessage]]
                        @ e1 @ e2 @ e3
                        @ (if running then [HttpError ''Received'' 200] else []), g2))
                else ([ReadAll, Log ''[Talk]          Message is not command: %s''
                         [rich_Message richMessage],
                       HttpError ''Received'' 200], g))
            else ([ReadAll, HttpError ''Received'' 200], g))
     \<and> Log ''[Request]       Error validating signature: %s / %s'' args
          \<notin> set (fst (messageHandling W g r))"
proof (rule conjI)
  show "messageHandling W g r =
       (case createMessage W P of
          Inl err \<Rightarrow> ([ReadAll, Log ''[Request]       Error invalid body: %s'' [],
                       HttpError ''Invalid signature'' 400], g)
        | Inr message \<Rightarrow>
            if object_Name (Object message) = ''message''
            then (case createRichMessageWithoutParameters W (object_Content (Object message)) of
              Inl err \<Rightarrow> ([ReadAll, HttpError ''Received'' 200], g)
            | Inr richMessage \<Rightarrow>
                if Match triggerMessageRegex (rich_Message richMessage)
                then
                  (case commandToJson (rich_Message richMessage) of (e1, json) \<Rightarrow>
                   case callWebhook W json of (e2, ok) \<Rightarrow>
                   case (if ok then getRandomResponse g
                         else (''Error calling Home Assistant'', g)) of (text, g1) \<Rightarrow>
                   case sendReply W g1 (Header_Get r ''X-NEXTCLOUD-TALK-BACKEND'') message text of
                     (e3, g2, running) \<Rightarrow>
                     ([ReadAll, Log ''[Talk]          Command found: %s'' [rich_Message richMessage]]
                        @ e1 @ e2 @ e3
                        @ (if running then [HttpError ''Received'' 200] else []), g2))
                else ([ReadAll, Log ''[Talk]          Message is not command: %s''
                         [rich_Message richMessage],
                       HttpError ''Received'' 200], g))
            else ([ReadAll, HttpError ''Received'' 200], g))"
    unfolding messageHandling_def Let_def using assms by simp
  show "Log ''[Request]       Error validating signature: %s / %s'' args
          \<notin> set (fst (messageHandling W g r))"
    using assms unfolding messageHandling_def Let_def split_beta
    by (auto simp: callWebhook_no_signature_log sendReply_no_signature_log
          commandToJson_no_signature_log split: if_splits option.splits sum.splits)
qed

theorem hmac_round_trip_witness:
  "Method commandRequest = ''POST'' \<and> Body commandRequest = Some commandBody
   \<and> Header_Get commandRequest ''X-NEXTCLOUD-TALK-RANDOM'' = ''n0nce''
   \<and> Header_Get commandRequest ''X-NEXTCLOUD-TALK-SIGNATURE'' =
        generateHmacForString exampleWorld commandBody ''n0nce''
          (config_GetString exampleWorld ''bot.secret'')
   \<and> createMessage exampleWorld commandBody = Inr (envelope commandContent ''room1'')
   \<and> messageHandling exampleWorld exampleRng commandRequest =
       (case createMessage exampleWorld commandBody of
          Inl err \<Rightarrow> ([ReadAll, Log ''[Request]       Error invalid body: %s'' [],
                       HttpError ''Invalid signature'' 400], exampleRng)
        | Inr message \<Rightarrow>
            if object_Name (Object message) = ''message''
            then (case createRichMessageWithoutParameters exampleWorld
                         (object_Content (Object message)) of
              Inl err \<Rightarrow> ([ReadAll, HttpError ''Received'' 200], exampleRng)
            | Inr richMessage \<Rightarrow>
                if Match triggerMessageRegex (rich_Message richMessage)
                then
                  (case commandToJson (rich_Message richMessage) of (e1, json) \<Rightarrow>
                   case callWebhook exampleWorld json of (e2, ok) \<Rightarrow>
                   case (if ok then getRandomResponse exampleRng
                         else (''Error calling Home Assistant'', exampleRng)) of (text, g1) \<Rightarrow>
                   case sendReply exampleWorld g1
                          (Header_Get commandRequest ''X-NEXTCLOUD-TALK-BACKEND'') message text of
                     (e3, g2, running) \<Rightarrow>
                     ([ReadAll, Log ''[Talk]          Command found: %s'' [rich_Message richMessage]]
                        @ e1 @ e2 @ e3
                        @ (if running then [HttpError ''Received'' 200] else []), g2))
                else ([ReadAll, Log ''[Talk]          Message is not command: %s''
                         [rich_Message richMessage],
                       HttpError ''Received'' 200], exampleRng))
            else ([ReadAll, HttpError ''Received'' 200], exampleRng))
   \<and> Log ''[Request]       Error validating signature: %s / %s''
        [''9dcaaeccc0a2b7e9539a5195888d098cfe5c095bc2ca6a14c487c24a586fe3c2'',
         ''9dcaaeccc0a2b7e9539a5195888d098cfe5c095bc2ca6a14c487c24a586fe3c2'']
        \<notin> set (fst (messageHandling exampleWorld exampleRng commandRequest))
   \<and> fst (messageHandling exampleWorld exampleRng commandRequest) =
       [ReadAll,
        Log ''[Talk]          Command found: %s'' [''@ha turn_on light1''],
        HttpPost ''http://ha.local:8123/api/webhook/hook1'' ''application/json'' commandPosted,
        Log ''[Webhook]       POST request was successful!'' [],
        ClientDo exampleReply,
        HttpError ''Received'' 200]
   \<and> Header_Get forgedRequest ''X-NEXTCLOUD-TALK-SIGNATURE'' \<noteq>
        generateHmacForString exampleWorld commandBody ''n0nce''
          (config_GetString exampleWorld ''bot.secret'')
   \<and> Log ''[Request]       Error validating signature: %s / %s''
        [''9dcaaeccc0a2b7e9539a5195888d098cfe5c095bc2ca6a14c487c24a586fe3c2'',
         ''0000000000000000000000000000000000000000000000000000000000000000'']
        \<in> set (fst (messageHandling exampleWorld exampleRng forgedRequest))"
proof -
  have h1: "Method commandRequest = ''POST''" and h2: "Body commandRequest = Some commandBody"
    and h3: "Header_Get commandRequest ''X-NEXTCLOUD-TALK-RANDOM'' = ''n0nce''"
    by (simp_all add: commandRequest_def signedRequest_def)
  have h4: "Header_Get commandRequest ''X-NEXTCLOUD-TALK-SIGNATURE'' =
        generateHmacForString exampleWorld commandBody ''n0nce''
          (config_GetString exampleWorld ''bot.secret'')"
    by code_simp
  have d: "createMessage exampleWorld commandBody = Inr (envelope commandContent ''room1'')"
    by code_simp
  have f: "Header_Get forgedRequest ''X-NEXTCLOUD-TALK-SIGNATURE'' \<noteq>
        generateHmacForString exampleWorld commandBody ''n0nce''
          (config_GetString exampleWorld ''bot.secret'')"
    by code_simp
  have l: "Log ''[Request]       Error validating signature: %s / %s''
        [''9dcaaeccc0a2b7e9539a5195888d098cfe5c095bc2ca6a14c487c24a586fe3c2'',
         ''0000000000000000000000000000000000000000000000000000000000000000'']
        \<in> set (fst (messageHandling exampleWorld exampleRng forgedRequest))"
    unfolding forged_run by simp
  note T = hmac_round_trip [OF h1 h2 h3 h4, of exampleRng
      "[''9dcaaeccc0a2b7e9539a5195888d098cfe5c095bc2ca6a14c487c24a586fe3c2'',
        ''9dcaaeccc0a2b7e9539a5195888d098cfe5c095bc2ca6a14c487c24a586fe3c2'']"]
  show ?thesis
    by (intro conjI h1 h2 h3 h4 d f l command_run T [THEN conjunct1] T [THEN conjunct2])
qed

section \<open>Requests that are not POST\<close>

text \<open>
  C10. A request whose method is not POST is answered at once: the handler returns without
  reading the body, logging, calling the automation endpoint or replying, and without
  writing a response, so the caller gets status 200 with an empty body.
\<close>

theorem non_post_ignored:
  "Method r \<noteq> ''POST'' \<Longrightarrow>
   messageHandling W g r = ([], g) \<and> httpResponse (fst (messageHandling W g r)) = Some (200, [])"
  unfolding messageHandling_def by simp

theorem non_post_ignored_witness:
  "Method getRequest \<noteq> ''POST''
   \<and> messageHandling exampleWorld exampleRng getRequest = ([], exampleRng)
   \<and> httpResponse (fst (messageHandling exampleWorld exampleRng getRequest)) = Some (200, [])"
proof -
  have h: "Method getRequest \<noteq> ''POST''"
    by (simp add: getRequest_def signedRequest_def)
  then show ?thesis
    using non_post_ignored [of getRequest exampleWorld exampleRng] by blast
qed

section \<open>Commands have three fields\<close>

lemma callWebhook_post_body:
  "HttpPost url ct b \<in> set (fst (callWebhook W j)) \<Longrightarrow> b = (case j of None \<Rightarrow> [] | Some x \<Rightarrow> x)"
  using callWebhook_fst [of W j] by auto

lemma sendReply_no_post: "HttpPost url ct b \<notin> set (fst (sendReply W g server message text))"
  unfolding sendReply_def Let_def split_beta by simp

lemma callWebhook_no_words_log:
  "Log ''[Talk]          Command doesn't contain at least two words.'' [] \<notin> set (fst (callWebhook W j))"
  unfolding callWebhook_def Let_def by (simp split: option.splits)

lemma sendReply_no_words_log:
  "Log ''[Talk]          Command doesn't contain at least two words.'' []
     \<notin> set (fst (sendReply W g server message text))"
  unfolding sendReply_def Let_def split_beta by simp

lemma commandToJson_Match_fst: "Match triggerMessageRegex t \<Longrightarrow> fst (commandToJson t) = []"
  using commandToJson_Match [of t] by simp

lemma commandToJson_Match_snd:
  "Match triggerMessageRegex t \<Longrightarrow> \<exists>b. snd (commandToJson t) = Some b \<and> b \<noteq> []"
  using commandToJson_Match [of t] by simp

text \<open>
  C9. A text that the trigger pattern accepts splits into at least three fields, so
  \<open>commandToJson\<close> takes its first branch on it: it logs nothing and returns a body. In
  the handler the branch for fewer than three fields is therefore never taken, and no POST
  to the automation endpoint carries an empty body.
\<close>

theorem trigger_three_fields:
  "(Match triggerMessageRegex t \<longrightarrow>
      3 \<le> length (Fields t) \<and> fst (commandToJson t) = [] \<and> snd (commandToJson t) \<noteq> None)
   \<and> Log ''[Talk]          Command doesn't contain at least two words.'' []
        \<notin> set (fst (messageHandling W g r))
   \<and> (HttpPost url ct b \<in> set (fst (messageHandling W g r)) \<longrightarrow> b \<noteq> [])"
proof (intro conjI)
  show "Match triggerMessageRegex t \<longrightarrow>
      3 \<le> length (Fields t) \<and> fst (commandToJson t) = [] \<and> snd (commandToJson t) \<noteq> None"
    using Match_Fields [of t] commandToJson_Match [of t] by auto
  show "Log ''[Talk]          Command doesn't contain at least two words.'' []
        \<notin> set (fst (messageHandling W g r))"
    unfolding messageHandling_def Let_def split_beta
    by (auto simp: callWebhook_no_words_log sendReply_no_words_log commandToJson_Match_fst
          split: if_splits option.splits sum.splits)
  show "HttpPost url ct b \<in> set (fst (messageHandling W g r)) \<longrightarrow> b \<noteq> []"
    unfolding messageHandling_def Let_def split_beta
    by (auto simp: sendReply_no_post commandToJson_Match_fst
          dest!: callWebhook_post_body commandToJson_Match_snd
          split: if_splits option.splits sum.splits)
qed

theorem trigger_three_fields_witness:
  "Match triggerMessageRegex ''@ha turn_on light1''
   \<and> 3 \<le> length (Fields ''@ha turn_on light1'')
   \<and> fst (commandToJson ''@ha turn_on light1'') = []
   \<and> snd (commandToJson ''@ha turn_on light1'') \<noteq> None
   \<and> HttpPost ''http://ha.local:8123/api/webhook/hook1'' ''application/json'' commandPosted
        \<in> set (fst (messageHandling exampleWorld exampleRng commandRequest))
   \<and> commandPosted \<noteq> []"
proof -
  have h1: "Match triggerMessageRegex ''@ha turn_on light1''"
    by (simp add: triggerMessageRegex_def)
  have h2: "HttpPost ''http://ha.local:8123/api/webhook/hook1'' ''application/json'' commandPosted
        \<in> set (fst (messageHandling exampleWorld exampleRng commandRequest))"
    unfolding command_run by simp
  show ?thesis
    using h1 h2
      trigger_three_fields [of "''@ha turn_on light1''" exampleWorld exampleRng commandRequest
        "''http://ha.local:8123/api/webhook/hook1''" "''application/json''" commandPosted]
    by blast
qed

section \<open>The automation call\<close>

text \<open>
  C6. \<open>callWebhook\<close> makes one POST, to the configured base URL without its trailing
  slashes followed by \<^verbatim>\<open>/api/webhook/\<close> and the webhook id, and returns true exactly
  when that POST yields status 200: every other status and a transport error give false.
  The trimmed URL is the base URL less a run of slashes at its end, and does not end in a
  slash.
\<close>

theorem callWebhook_status:
  "(snd (callWebhook W jsonData) \<longleftrightarrow>
      http_Post W (TrimRight (config_GetString W ''bot.ha.url'') ''/'' @ ''/api/webhook/''
                     @ config_GetString W ''bot.ha.webhook_id'')
        ''application/json'' (case jsonData of None \<Rightarrow> [] | Some b \<Rightarrow> b) = Some 200)
   \<and> filter outbound (fst (callWebhook W jsonData)) =
       [HttpPost (TrimRight (config_GetString W ''bot.ha.url'') ''/'' @ ''/api/webhook/''
                     @ config_GetString W ''bot.ha.webhook_id'')
          ''application/json'' (case jsonData of None \<Rightarrow> [] | Some b \<Rightarrow> b)]
   \<and> (\<exists>n. config_GetString W ''bot.ha.url'' =
          TrimRight (config_GetString W ''bot.ha.url'') ''/'' @ replicate n (CHR ''/''))
   \<and> (\<forall>p. TrimRight (config_GetString W ''bot.ha.url'') ''/'' \<noteq> p @ ''/'')"
proof (intro conjI)
  show "snd (callWebhook W jsonData) \<longleftrightarrow>
      http_Post W (TrimRight (config_GetString W ''bot.ha.url'') ''/'' @ ''/api/webhook/''
                     @ config_GetString W ''bot.ha.webhook_id'')
        ''application/json'' (case jsonData of None \<Rightarrow> [] | Some b \<Rightarrow> b) = Some 200"
    by (rule callWebhook_snd)
  show "filter outbound (fst (callWebhook W jsonData)) =
       [HttpPost (TrimRight (config_GetString W ''bot.ha.url'') ''/'' @ ''/api/webhook/''
                     @ config_GetString W ''bot.ha.webhook_id'')
          ''application/json'' (case jsonData of None \<Rightarrow> [] | Some b \<Rightarrow> b)]"
    using callWebhook_fst [of W jsonData] by auto
  show "\<exists>n. config_GetString W ''bot.ha.url'' =
          TrimRight (config_GetString W ''bot.ha.url'') ''/'' @ replicate n (CHR ''/'')"
    by (rule TrimRight_suffix)
  show "\<forall>p. TrimRight (config_GetString W ''bot.ha.url'') ''/'' \<noteq> p @ ''/''"
    using TrimRight_last by blast
qed

theorem callWebhook_status_witness:
  "snd (callWebhook exampleWorld (Some commandPosted))
   \<and> http_Post exampleWorld ''http://ha.local:8123/api/webhook/hook1'' ''application/json''
        commandPosted = Some 200
   \<and> filter outbound (fst (callWebhook exampleWorld (Some commandPosted))) =
       [HttpPost ''http://ha.local:8123/api/webhook/hook1'' ''application/json'' commandPosted]
   \<and> TrimRight (config_GetString exampleWorld ''bot.ha.url'') ''/'' = ''http://ha.local:8123''"
proof -
  have u: "TrimRight (config_GetString exampleWorld ''bot.ha.url'') ''/'' = ''http://ha.local:8123''"
    by (simp add: exampleWorld_def TrimRight_def)
  have w: "config_GetString exampleWorld ''bot.ha.webhook_id'' = ''hook1''"
    by (simp add: exampleWorld_def)
  have p: "http_Post exampleWorld ''http://ha.local:8123/api/webhook/hook1'' ''application/json''
        commandPosted = Some 200"
    by (simp add: exampleWorld_def)
  show ?thesis
    using callWebhook_status [of exampleWorld "Some commandPosted"] u w p by simp
qed

section \<open>Which messages are commands\<close>

lemma PerlWord_wordChar_all: "list_all (atomOk PerlWord) w = list_all wordChar w"
  by (induction w) (simp_all add: PerlWord_wordChar del: atomOk.simps)

lemma callWebhook_outbound: "\<exists>e \<in> set (fst (callWebhook W j)). outbound e"
  using callWebhook_fst [of W j] by auto

text \<open>
  The shape of the trigger on examples: one whitespace character between the parts, words of
  word characters only, the marker in lower case, and anything after the second word.
\<close>

lemma trigger_shape_examples:
  "Match triggerMessageRegex ''@ha turn_on light1''"
  "Match triggerMessageRegex ''@ha turn_on light1 now!''"
  "\<not> Match triggerMessageRegex ''@ha  turn_on light1''"
  "\<not> Match triggerMessageRegex ''@ha turn-on light1''"
  "\<not> Match triggerMessageRegex ''@HA turn_on light1''"
  "\<not> Match triggerMessageRegex ''@ha turn_on''"
  "\<not> Match triggerMessageRegex ''hello @ha turn_on light1''"
  by (simp_all add: triggerMessageRegex_def)

text \<open>
  C4. Take a request that passed the signature check and decoded to a chat message with a
  rich-text payload. Its text matches the trigger exactly when it is \<^verbatim>\<open>@ha\<close>, one
  whitespace character, a word, one whitespace character, a word, and then anything. The
  handler calls the automation endpoint exactly when the text matches. When it does not
  match, also when the marker stands later in the text, the handler logs the text as no
  command, makes no call, sends no reply and answers 200 \<^verbatim>\<open>Received\<close>.
\<close>

theorem trigger_iff_pattern:
  assumes "Method r = ''POST''" "Body r = Some body"
    "Header_Get r ''X-NEXTCLOUD-TALK-SIGNATURE'' =
       generateHmacForString W body (Header_Get r ''X-NEXTCLOUD-TALK-RANDOM'')
         (config_GetString W ''bot.secret'')"
    "json_Decode_Message W body = Some message"
    "object_Name (Object message) = ''message''"
    "json_Decode_RichObjectMessage W (object_Content (Object message)) = Some rich"
  shows "(Match triggerMessageRegex (rich_Message rich) \<longleftrightarrow>
           (\<exists>s1 w1 s2 w2 rest. rich_Message rich = ''@ha'' @ [s1] @ w1 @ [s2] @ w2 @ rest
              \<and> whitespaceChar s1 \<and> w1 \<noteq> [] \<and> list_all wordChar w1
              \<and> whitespaceChar s2 \<and> w2 \<noteq> [] \<and> list_all wordChar w2))
       \<and> ((\<exists>e \<in> set (fst (messageHandling W g r)). outbound e) \<longleftrightarrow>
            Match triggerMessageRegex (rich_Message rich))
       \<and> (\<not> Match triggerMessageRegex (rich_Message rich) \<longrightarrow>
            messageHandling W g r =
              ([ReadAll,
                Log ''[Talk]          Message is not command: %s'' [rich_Message rich],
                HttpError ''Received'' 200], g)
            \<and> httpResponse (fst (messageHandling W g r)) = Some (200, ''Received''))"
proof (intro conjI)
  show "Match triggerMessageRegex (rich_Message rich) \<longleftrightarrow>
           (\<exists>s1 w1 s2 w2 rest. rich_Message rich = ''@ha'' @ [s1] @ w1 @ [s2] @ w2 @ rest
              \<and> whitespaceChar s1 \<and> w1 \<noteq> [] \<and> list_all wordChar w1
              \<and> whitespaceChar s2 \<and> w2 \<noteq> [] \<and> list_all wordChar w2)"
    unfolding Match_trigger PerlWord_wordChar_all PerlSpace_whitespaceChar by simp
  show "(\<exists>e \<in> set (fst (messageHandling W g r)). outbound e) \<longleftrightarrow>
            Match triggerMessageRegex (rich_Message rich)"
  proof (cases "Match triggerMessageRegex (rich_Message rich)")
    case True
    show ?thesis
      using True callWebhook_outbound [of W "snd (commandToJson (rich_Message rich))"]
      unfolding messageHandling_command [OF assms True] by auto
  next
    case False
    show ?thesis
      using False unfolding messageHandling_chat [OF assms False] by simp
  qed
  show "\<not> Match triggerMessageRegex (rich_Message rich) \<longrightarrow>
            messageHandling W g r =
              ([ReadAll,
                Log ''[Talk]          Message is not command: %s'' [rich_Message rich],
                HttpError ''Received'' 200], g)
            \<and> httpResponse (fst (messageHandling W g r)) = Some (200, ''Received'')"
    using messageHandling_chat [OF assms] by simp
qed

theorem trigger_iff_pattern_witness:
  "Method chatRequest = ''POST'' \<and> Body chatRequest = Some chatBody
   \<and> Header_Get chatRequest ''X-NEXTCLOUD-TALK-SIGNATURE'' =
       generateHmacForString exampleWorld chatBody (Header_Get chatRequest ''X-NEXTCLOUD-TALK-RANDOM'')
         (config_GetString exampleWorld ''bot.secret'')
   \<and> json_Decode_Message exampleWorld chatBody = Some (envelope chatContent ''room1'')
   \<and> object_Name (Object (envelope chatContent ''room1'')) = ''message''
   \<and> json_Decode_RichObjectMessage exampleWorld (object_Content (Object (envelope chatContent ''room1'')))
       = Some \<lparr>rich_Message = ''hello @ha turn_on light1''\<rparr>
   \<and> \<not> Match triggerMessageRegex ''hello @ha turn_on light1''
   \<and> \<not> (\<exists>e \<in> set (fst (messageHandling exampleWorld exampleRng chatRequest)). outbound e)
   \<and> httpResponse (fst (messageHandling exampleWorld exampleRng chatRequest)) = Some (200, ''Received'')"
proof -
  have h1: "Method chatRequest = ''POST''" and h2: "Body chatRequest = Some chatBody"
    by (simp_all add: chatRequest_def signedRequest_def)
  have h3: "Header_Get chatRequest ''X-NEXTCLOUD-TALK-SIGNATURE'' =
       generateHmacForString exampleWorld chatBody (Header_Get chatRequest ''X-NEXTCLOUD-TALK-RANDOM'')
         (config_GetString exampleWorld ''bot.secret'')"
    by code_simp
  have h4: "json_Decode_Message exampleWorld chatBody = Some (envelope chatContent ''room1'')"
    by code_simp
  have h5: "object_Name (Object (envelope chatContent ''room1'')) = ''message''"
    by (simp add: envelope_def)
  have h6: "json_Decode_RichObjectMessage exampleWorld
       (object_Content (Object (envelope chatContent ''room1'')))
       = Some \<lparr>rich_Message = ''hello @ha turn_on light1''\<rparr>"
    by code_simp
  have n: "\<not> Match triggerMessageRegex ''hello @ha turn_on light1''"
    by (simp add: triggerMessageRegex_def)
  show ?thesis
    using trigger_iff_pattern [OF h1 h2 h3 h4 h5 h6, of exampleRng] h1 h2 h3 h4 h5 h6 n
    by simp
qed

section \<open>The reply\<close>

lemma httpResponse_Received:
  assumes "\<forall>e \<in> set es. (\<forall>m c. e \<noteq> HttpError m c) \<and> (\<forall>n. e \<noteq> OsExit n)"
  shows "httpResponse (es @ [HttpError ''Received'' 200]) = Some (200, ''Received'')"
  using assms
proof (induction es)
  case Nil
  then show ?case by simp
next
  case (Cons e es)
  then show ?case by (cases e) simp_all
qed

lemma messageHandling_exit:
  assumes "Method r = ''POST''" "Body r = Some body"
    "Header_Get r ''X-NEXTCLOUD-TALK-SIGNATURE'' =
       generateHmacForString W body (Header_Get r ''X-NEXTCLOUD-TALK-RANDOM'')
         (config_GetString W ''bot.secret'')"
    "json_Decode_Message W body = Some message"
    "object_Name (Object message) = ''message''"
    "json_Decode_RichObjectMessage W (object_Content (Object message)) = Some rich"
    "Match triggerMessageRegex (rich_Message rich)"
    "\<not> http_NewRequest W ''POST''
       (Header_Get r ''X-NEXTCLOUD-TALK-BACKEND'' @ ''ocs/v2.php/apps/spreed/api/v1/bot/''
          @ target_Id (Target message) @ ''/message'')"
  shows "(\<exists>l. fst (messageHandling W g r) =
            [ReadAll,
             Log ''[Talk]          Command found: %s'' [rich_Message rich],
             HttpPost (TrimRight (config_GetString W ''bot.ha.url'') ''/'' @ ''/api/webhook/''
                         @ config_GetString W ''bot.ha.webhook_id'')
               ''application/json''
               (case snd (commandToJson (rich_Message rich)) of None \<Rightarrow> [] | Some b \<Rightarrow> b),
             Log l [],
             Log ''[Response]      Error creating request %v'' [],
             OsExit 1])
       \<and> httpResponse (fst (messageHandling W g r)) = None"
proof -
  let ?j = "snd (commandToJson (rich_Message rich))"
  obtain l where cw: "fst (callWebhook W ?j) =
     [HttpPost (TrimRight (config_GetString W ''bot.ha.url'') ''/'' @ ''/api/webhook/''
                 @ config_GetString W ''bot.ha.webhook_id'')
        ''application/json'' (case ?j of None \<Rightarrow> [] | Some b \<Rightarrow> b),
      Log l []]"
    using callWebhook_fst [of W ?j] by blast
  have trace: "fst (messageHandling W g r) =
     [ReadAll,
      Log ''[Talk]          Command found: %s'' [rich_Message rich],
      HttpPost (TrimRight (config_GetString W ''bot.ha.url'') ''/'' @ ''/api/webhook/''
                  @ config_GetString W ''bot.ha.webhook_id'')
        ''application/json'' (case ?j of None \<Rightarrow> [] | Some b \<Rightarrow> b),
      Log l [],
      Log ''[Response]      Error creating request %v'' [],
      OsExit 1]"
    unfolding messageHandling_command [OF assms(1-7)] sendReply_exit [OF assms(8)] cw by simp
  have "httpResponse (fst (messageHandling W g r)) = None"
    unfolding trace by simp
  with trace show ?thesis by blast
qed

text \<open>
  C7, as the program has it. Take a request that passed the signature check and decoded to a
  chat message whose text matches the trigger, and let the request for the reply be creatable
  from the backend header and the room id. Then exactly one reply is posted; its text is
  \<^verbatim>\<open>Done!\<close> when the automation call succeeded and \<^verbatim>\<open>Error calling Home Assistant\<close>
  when it failed; and the handler answers 200 \<^verbatim>\<open>Received\<close> in both cases.
\<close>

theorem dispatch_reply:
  assumes "Method r = ''POST''" "Body r = Some body"
    "Header_Get r ''X-NEXTCLOUD-TALK-SIGNATURE'' =
       generateHmacForString W body (Header_Get r ''X-NEXTCLOUD-TALK-RANDOM'')
         (config_GetString W ''bot.secret'')"
    "json_Decode_Message W body = Some message"
    "object_Name (Object message) = ''message''"
    "json_Decode_RichObjectMessage W (object_Content (Object message)) = Some rich"
    "Match triggerMessageRegex (rich_Message rich)"
    "http_NewRequest W ''POST''
       (Header_Get r ''X-NEXTCLOUD-TALK-BACKEND'' @ ''ocs/v2.php/apps/spreed/api/v1/bot/''
          @ target_Id (Target message) @ ''/message'')"
  shows "(\<exists>req. filter outbound (fst (messageHandling W g r)) =
            [HttpPost (TrimRight (config_GetString W ''bot.ha.url'') ''/'' @ ''/api/webhook/''
                         @ config_GetString W ''bot.ha.webhook_id'')
               ''application/json''
               (case snd (commandToJson (rich_Message rich)) of None \<Rightarrow> [] | Some b \<Rightarrow> b),
             ClientDo req]
          \<and> out_Body req = json_Marshal W
               \<lparr>response_Message =
                  (if snd (callWebhook W (snd (commandToJson (rich_Message rich))))
                   then ''Done!'' else ''Error calling Home Assistant''),
                response_ReplyTo = object_Id (Object message)\<rparr>)
       \<and> httpResponse (fst (messageHandling W g r)) = Some (200, ''Received'')"
proof -
  let ?j = "snd (commandToJson (rich_Message rich))"
  let ?ok = "snd (callWebhook W ?j)"
  let ?g = "if ?ok then (\<lambda>i. g (Suc i)) else g"
  let ?text = "if ?ok then ''Done!'' else ''Error calling Home Assistant''"
  let ?server = "Header_Get r ''X-NEXTCLOUD-TALK-BACKEND''"
  obtain l where cw: "fst (callWebhook W ?j) =
     [HttpPost (TrimRight (config_GetString W ''bot.ha.url'') ''/'' @ ''/api/webhook/''
                 @ config_GetString W ''bot.ha.webhook_id'')
        ''application/json'' (case ?j of None \<Rightarrow> [] | Some b \<Rightarrow> b),
      Log l []]"
    using callWebhook_fst [of W ?j] by blast
  obtain tail req where sr: "sendReply W ?g ?server message ?text = (ClientDo req # tail,
      snd (generateRandomBytes 64 ?g), True)"
    and body: "out_Body req = json_Marshal W
       \<lparr>response_Message = ?text, response_ReplyTo = object_Id (Object message)\<rparr>"
    and tail: "tail = [] \<or> tail = [Log ''[Response]      Error posting request %v'' []]"
    using sendReply_created [OF assms(8), of ?g ?text] by force
  have trace: "fst (messageHandling W g r) =
     [ReadAll, Log ''[Talk]          Command found: %s'' [rich_Message rich]]
       @ fst (callWebhook W ?j) @ (ClientDo req # tail) @ [HttpError ''Received'' 200]"
    unfolding messageHandling_command [OF assms(1-7)] sr by simp
  have f: "filter outbound (fst (messageHandling W g r)) =
     [HttpPost (TrimRight (config_GetString W ''bot.ha.url'') ''/'' @ ''/api/webhook/''
                 @ config_GetString W ''bot.ha.webhook_id'')
        ''application/json'' (case ?j of None \<Rightarrow> [] | Some b \<Rightarrow> b),
      ClientDo req]"
    unfolding trace cw using tail by auto
  have "httpResponse (([ReadAll, Log ''[Talk]          Command found: %s'' [rich_Message rich]]
       @ fst (callWebhook W ?j) @ (ClientDo req # tail)) @ [HttpError ''Received'' 200])
      = Some (200, ''Received'')"
    by (rule httpResponse_Received) (use cw tail in auto)
  then have h: "httpResponse (fst (messageHandling W g r)) = Some (200, ''Received'')"
    unfolding trace by simp
  show ?thesis using f body h by blast
qed

theorem dispatch_reply_witness:
  "Method commandRequest = ''POST'' \<and> Body commandRequest = Some commandBody
   \<and> Header_Get commandRequest ''X-NEXTCLOUD-TALK-SIGNATURE'' =
       generateHmacForString exampleWorld commandBody
         (Header_Get commandRequest ''X-NEXTCLOUD-TALK-RANDOM'')
         (config_GetString exampleWorld ''bot.secret'')
   \<and> json_Decode_Message exampleWorld commandBody = Some (envelope commandContent ''room1'')
   \<and> object_Name (Object (envelope commandContent ''room1'')) = ''message''
   \<and> json_Decode_RichObjectMessage exampleWorld
        (object_Content (Object (envelope commandContent ''room1'')))
       = Some \<lparr>rich_Message = ''@ha turn_on light1''\<rparr>
   \<and> Match triggerMessageRegex ''@ha turn_on light1''
   \<and> http_NewRequest exampleWorld ''POST''
       (Header_Get commandRequest ''X-NEXTCLOUD-TALK-BACKEND'' @ ''ocs/v2.php/apps/spreed/api/v1/bot/''
          @ target_Id (Target (envelope commandContent ''room1'')) @ ''/message'')
   \<and> httpResponse (fst (messageHandling exampleWorld exampleRng commandRequest))
       = Some (200, ''Received'')"
proof -
  have h1: "Method commandRequest = ''POST''" and h2: "Body commandRequest = Some commandBody"
    by (simp_all add: commandRequest_def signedRequest_def)
  have h3: "Header_Get commandRequest ''X-NEXTCLOUD-TALK-SIGNATURE'' =
       generateHmacForString exampleWorld commandBody
         (Header_Get commandRequest ''X-NEXTCLOUD-TALK-RANDOM'')
         (config_GetString exampleWorld ''bot.secret'')"
    by code_simp
  have h4: "json_Decode_Message exampleWorld commandBody = Some (envelope commandContent ''room1'')"
    by code_simp
  have h5: "object_Name (Object (envelope commandContent ''room1'')) = ''message''"
    by (simp add: envelope_def)
  have h6: "json_Decode_RichObjectMessage exampleWorld
        (object_Content (Object (envelope commandContent ''room1'')))
       = Some \<lparr>rich_Message = ''@ha turn_on light1''\<rparr>"
    by code_simp
  have h7: "Match triggerMessageRegex (rich_Message \<lparr>rich_Message = ''@ha turn_on light1''\<rparr>)"
    by (simp add: triggerMessageRegex_def)
  have h8: "http_NewRequest exampleWorld ''POST''
       (Header_Get commandRequest ''X-NEXTCLOUD-TALK-BACKEND'' @ ''ocs/v2.php/apps/spreed/api/v1/bot/''
          @ target_Id (Target (envelope commandContent ''room1'')) @ ''/message'')"
    by code_simp
  show ?thesis
    using dispatch_reply [OF h1 h2 h3 h4 h5 h6 h7 h8, of exampleRng] h1 h2 h3 h4 h5 h6 h7 h8
    by simp
qed

text \<open>
  C7 as the specification states it fails: the request below is signed, its text matches
  the trigger and the automation call succeeds, but its room id holds a newline, so the
  request for the reply cannot be created. The program logs that and exits: no reply is
  posted and the caller gets no response.
\<close>

theorem dispatch_reply_counterexample:
  "Match triggerMessageRegex ''@ha turn_on light1''
   \<and> fst (messageHandling exampleWorld exampleRng badRoomRequest) =
       [ReadAll,
        Log ''[Talk]          Command found: %s'' [''@ha turn_on light1''],
        HttpPost ''http://ha.local:8123/api/webhook/hook1'' ''application/json'' commandPosted,
        Log ''[Webhook]       POST request was successful!'' [],
        Log ''[Response]      Error creating request %v'' [],
        OsExit 1]
   \<and> httpResponse (fst (messageHandling exampleWorld exampleRng badRoomRequest))
       \<noteq> Some (200, ''Received'')"
  unfolding bad_room_run by (simp add: triggerMessageRegex_def)

section \<open>How the reply is signed\<close>

text \<open>
  C8, as the program has it. For every reply whose request can be created, the notifier
  posts one request to the bot endpoint of the room. Its body is the encoding of
  \<open>Response\<close> with the reply text and the id of the message replied to. Its nonce is 64
  characters of \<open>letterBytes\<close> chosen by the next 64 outputs of the generator, which is
  left advanced by 64. Its signature header is the lower-case hex HMAC-SHA256, under the
  configured secret, of the nonce followed by the reply text itself: the text that is
  signed is the \<open>message\<close> field, not the encoded body that is posted.
\<close>

theorem reply_signature:
  assumes "http_NewRequest W ''POST''
     (server @ ''ocs/v2.php/apps/spreed/api/v1/bot/'' @ target_Id (Target message) @ ''/message'')"
  shows "filter outbound (fst (sendReply W g server message text)) =
       [ClientDo
          \<lparr>out_URL = server @ ''ocs/v2.php/apps/spreed/api/v1/bot/'' @ target_Id (Target message)
                       @ ''/message'',
           out_Body = json_Marshal W \<lparr>response_Message = text,
                        response_ReplyTo = object_Id (Object message)\<rparr>,
           out_Header =
             [(''Content-Type'', ''application/json''),
              (''OCS-APIRequest'', ''true''),
              (''X-Nextcloud-Talk-Bot-Random'',
               map (\<lambda>i. letterBytes ! (g i mod 62)) [0..<64]),
              (''X-Nextcloud-Talk-Bot-Signature'',
               EncodeToString (hmac_sha256 W (config_GetString W ''bot.secret'')
                 (map (\<lambda>i. letterBytes ! (g i mod 62)) [0..<64] @ text)))]\<rparr>]
     \<and> fst (snd (sendReply W g server message text)) = (\<lambda>i. g (i + 64))
     \<and> set (map (\<lambda>i. letterBytes ! (g i mod 62)) [0..<64]) \<subseteq> set letterBytes
     \<and> set (EncodeToString (hmac_sha256 W (config_GetString W ''bot.secret'')
                 (map (\<lambda>i. letterBytes ! (g i mod 62)) [0..<64] @ text)))
         \<subseteq> set ''0123456789abcdef''"
proof -
  have len: "length letterBytes = 62" by (simp add: letterBytes_def)
  have rnd: "generateRandomBytes 64 g =
      (map (\<lambda>i. letterBytes ! (g i mod 62)) [0..<64], \<lambda>i. g (i + 64))"
    unfolding generateRandomBytes_eq len ..
  obtain tail where sr: "sendReply W g server message text =
     (ClientDo
        \<lparr>out_URL = server @ ''ocs/v2.php/apps/spreed/api/v1/bot/'' @ target_Id (Target message)
                     @ ''/message'',
         out_Body = json_Marshal W \<lparr>response_Message = text,
                      response_ReplyTo = object_Id (Object message)\<rparr>,
         out_Header =
           [(''Content-Type'', ''application/json''),
            (''OCS-APIRequest'', ''true''),
            (''X-Nextcloud-Talk-Bot-Random'', fst (generateRandomBytes 64 g)),
            (''X-Nextcloud-Talk-Bot-Signature'',
             generateHmacForString W text (fst (generateRandomBytes 64 g))
               (config_GetString W ''bot.secret''))]\<rparr> # tail,
      snd (generateRandomBytes 64 g), True)"
    and tail: "tail = [] \<or> tail = [Log ''[Response]      Error posting request %v'' []]"
    using sendReply_created [OF assms, of g "text"] by blast
  have in_letters: "letterBytes ! (k mod 62) \<in> set letterBytes" for k
    by (rule nth_mem) (simp add: len)
  have 1: "filter outbound (fst (sendReply W g server message text)) =
       [ClientDo
          \<lparr>out_URL = server @ ''ocs/v2.php/apps/spreed/api/v1/bot/'' @ target_Id (Target message)
                       @ ''/message'',
           out_Body = json_Marshal W \<lparr>response_Message = text,
                        response_ReplyTo = object_Id (Object message)\<rparr>,
           out_Header =
             [(''Content-Type'', ''application/json''),
              (''OCS-APIRequest'', ''true''),
              (''X-Nextcloud-Talk-Bot-Random'',
               map (\<lambda>i. letterBytes ! (g i mod 62)) [0..<64]),
              (''X-Nextcloud-Talk-Bot-Signature'',
               EncodeToString (hmac_sha256 W (config_GetString W ''bot.secret'')
                 (map (\<lambda>i. letterBytes ! (g i mod 62)) [0..<64] @ text)))]\<rparr>]"
    unfolding sr rnd generateHmacForString_def using tail by auto
  have 2: "fst (snd (sendReply W g server message text)) = (\<lambda>i. g (i + 64))"
    unfolding sr rnd by simp
  have 3: "set (map (\<lambda>i. letterBytes ! (g i mod 62)) [0..<64]) \<subseteq> set letterBytes"
    using in_letters by auto
  show ?thesis using 1 2 3 EncodeToString_hex by blast
qed

theorem reply_signature_witness:
  "http_NewRequest exampleWorld ''POST''
     (''https://cloud.example/'' @ ''ocs/v2.php/apps/spreed/api/v1/bot/''
        @ target_Id (Target (envelope commandContent ''room1'')) @ ''/message'')
   \<and> fst (snd (sendReply exampleWorld (snd (getRandomResponse exampleRng))
        ''https://cloud.example/'' (envelope commandContent ''room1'') ''Done!''))
       = (\<lambda>i. snd (getRandomResponse exampleRng) (i + 64))"
proof -
  have h: "http_NewRequest exampleWorld ''POST''
     (''https://cloud.example/'' @ ''ocs/v2.php/apps/spreed/api/v1/bot/''
        @ target_Id (Target (envelope commandContent ''room1'')) @ ''/message'')"
    by code_simp
  show ?thesis
    using reply_signature [OF h, of "snd (getRandomResponse exampleRng)" "''Done!''"] h
    by blast
qed

text \<open>
  C8 as the specification states it fails: in the reply to the example command, the
  signature header is the digest of the nonce followed by \<^verbatim>\<open>Done!\<close>, and differs from
  the digest of the nonce followed by the encoded reply that is posted.
\<close>

theorem reply_signature_counterexample:
  "ClientDo exampleReply \<in> set (fst (messageHandling exampleWorld exampleRng commandRequest))
   \<and> map_of (out_Header exampleReply) ''X-Nextcloud-Talk-Bot-Random'' = Some exampleNonce
   \<and> map_of (out_Header exampleReply) ''X-Nextcloud-Talk-Bot-Signature'' =
       Some (generateHmacForString exampleWorld ''Done!'' exampleNonce
               (config_GetString exampleWorld ''bot.secret''))
   \<and> map_of (out_Header exampleReply) ''X-Nextcloud-Talk-Bot-Signature'' \<noteq>
       Some (generateHmacForString exampleWorld (out_Body exampleReply) exampleNonce
               (config_GetString exampleWorld ''bot.secret''))"
proof -
  have 1: "ClientDo exampleReply \<in> set (fst (messageHandling exampleWorld exampleRng commandRequest))"
    unfolding command_run by simp
  have 2: "map_of (out_Header exampleReply) ''X-Nextcloud-Talk-Bot-Random'' = Some exampleNonce"
    by (simp add: exampleReply_def)
  have 3: "map_of (out_Header exampleReply) ''X-Nextcloud-Talk-Bot-Signature'' =
       Some (generateHmacForString exampleWorld ''Done!'' exampleNonce
               (config_GetString exampleWorld ''bot.secret''))"
    by code_simp
  have 4: "map_of (out_Header exampleReply) ''X-Nextcloud-Talk-Bot-Signature'' \<noteq>
       Some (generateHmacForString exampleWorld (out_Body exampleReply) exampleNonce
               (config_GetString exampleWorld ''bot.secret''))"
    by code_simp
  show ?thesis using 1 2 3 4 by blast
qed

section \<open>The body posted to the automation hub\<close>

lemma readString_quote: "readString (CHR 0x22 # rest) = Some ([], rest)"
  by (cases rest) simp_all

lemma readString_plain:
  "jsonPlain c \<Longrightarrow>
   readString (c # cs) = (case readString cs of None \<Rightarrow> None | Some (v, rest) \<Rightarrow> Some (c # v, rest))"
  by (cases cs) (auto simp: jsonPlain_def)

lemma readString_plain_all:
  "list_all jsonPlain s \<Longrightarrow> readString (s @ CHR 0x22 # rest) = Some (s, rest)"
proof (induction s)
  case Nil
  then show ?case by (simp add: readString_quote)
next
  case (Cons c s)
  then have "jsonPlain c" and "readString (s @ CHR 0x22 # rest) = Some (s, rest)" by simp_all
  then show ?case by (simp add: readString_plain del: readString.simps)
qed

lemma readQuoted_plain:
  "list_all jsonPlain s \<Longrightarrow> readQuoted (CHR 0x22 # s @ CHR 0x22 # rest) = Some (s, rest)"
  unfolding readQuoted_def by (simp add: readString_plain_all del: readString.simps)

lemma readMember_plain:
  assumes "list_all jsonPlain k" "list_all jsonPlain v"
  shows "readMember (CHR 0x22 # k @ CHR 0x22 # CHR '':'' # CHR '' '' # CHR 0x22 # v @ CHR 0x22 # rest)
     = Some ((k, v), rest)"
proof -
  have 1: "readQuoted (CHR 0x22 # k @ CHR 0x22 # CHR '':'' # CHR '' '' # CHR 0x22 # v @ CHR 0x22 # rest)
      = Some (k, CHR '':'' # CHR '' '' # CHR 0x22 # v @ CHR 0x22 # rest)"
    using assms(1) by (rule readQuoted_plain)
  have 2: "dropWhile jsonWs (CHR '':'' # CHR '' '' # CHR 0x22 # v @ CHR 0x22 # rest)
      = CHR '':'' # CHR '' '' # CHR 0x22 # v @ CHR 0x22 # rest"
    by (simp add: jsonWs_def)
  have 3: "dropWhile jsonWs (CHR '' '' # CHR 0x22 # v @ CHR 0x22 # rest) = CHR 0x22 # v @ CHR 0x22 # rest"
    by (simp add: jsonWs_def)
  have 4: "readQuoted (CHR 0x22 # v @ CHR 0x22 # rest) = Some (v, rest)"
    using assms(2) by (rule readQuoted_plain)
  show ?thesis unfolding readMember_def 1 by (simp add: 2 3 4 del: dropWhile.simps)
qed

lemma readMore_close: "dropWhile jsonWs s = CHR ''}'' # rest \<Longrightarrow> readMore s = Some ([], rest)"
  by (subst readMore.simps) (simp del: readMore.simps)

lemma readMore_member:
  assumes "dropWhile jsonWs s = CHR '','' # s'" "dropWhile jsonWs s' = m"
    "readMember m = Some (kv, r)" "length r < length s" "readMore r = Some (ms, rest)"
  shows "readMore s = Some (kv # ms, rest)"
  by (subst readMore.simps) (simp add: assms del: readMore.simps)

lemma readObject_members:
  assumes "dropWhile jsonWs s = CHR ''{'' # s'" "dropWhile jsonWs s' = d # ds" "d \<noteq> CHR ''}''"
    "readMember (d # ds) = Some (kv, r)" "readMore r = Some (ms, rest)" "list_all jsonWs rest"
  shows "readObject s = Some (kv # ms)"
  unfolding readObject_def by (simp add: assms del: readMore.simps)

lemma readObject_template:
  assumes "list_all jsonPlain a" "list_all jsonPlain t"
  shows "readObject (''{'' @ [CHR 0x0A, CHR 0x09, CHR 0x09, CHR 0x09]
                    @ dq @ ''action'' @ dq @ '': '' @ dq @ a @ dq @ '',''
                    @ [CHR 0x0A, CHR 0x09, CHR 0x09, CHR 0x09]
                    @ dq @ ''target'' @ dq @ '': '' @ dq @ t @ dq
                    @ [CHR 0x0A, CHR 0x09, CHR 0x09] @ ''}'')
     = Some [(''action'', a), (''target'', t)]"
proof -
  let ?r2 = "[CHR 0x0A, CHR 0x09, CHR 0x09, CHR ''}'']"
  let ?m2 = "CHR 0x22 # ''target'' @ CHR 0x22 # CHR '':'' # CHR '' '' # CHR 0x22 # t @ CHR 0x22 # ?r2"
  let ?s2 = "CHR 0x0A # CHR 0x09 # CHR 0x09 # CHR 0x09 # ?m2"
  let ?r1 = "CHR '','' # ?s2"
  let ?m1 = "CHR 0x22 # ''action'' @ CHR 0x22 # CHR '':'' # CHR '' '' # CHR 0x22 # a @ CHR 0x22 # ?r1"
  let ?s1 = "CHR 0x0A # CHR 0x09 # CHR 0x09 # CHR 0x09 # ?m1"
  have body: "''{'' @ [CHR 0x0A, CHR 0x09, CHR 0x09, CHR 0x09]
                    @ dq @ ''action'' @ dq @ '': '' @ dq @ a @ dq @ '',''
                    @ [CHR 0x0A, CHR 0x09, CHR 0x09, CHR 0x09]
                    @ dq @ ''target'' @ dq @ '': '' @ dq @ t @ dq
                    @ [CHR 0x0A, CHR 0x09, CHR 0x09] @ ''}''
      = CHR ''{'' # ?s1"
    by (simp add: dq_def)
  have key1: "list_all jsonPlain ''action''" and key2: "list_all jsonPlain ''target''"
    by (simp_all add: jsonPlain_def)
  have m1: "readMember ?m1 = Some ((''action'', a), ?r1)"
    using key1 assms(1) by (rule readMember_plain)
  have m2: "readMember ?m2 = Some ((''target'', t), ?r2)"
    using key2 assms(2) by (rule readMember_plain)
  have more2: "readMore ?r2 = Some ([], [])"
    by (rule readMore_close) (simp add: jsonWs_def)
  have more1: "readMore ?r1 = Some ([(''target'', t)], [])"
  proof (rule readMore_member)
    show "dropWhile jsonWs ?r1 = CHR '','' # ?s2" by (simp add: jsonWs_def)
    show "dropWhile jsonWs ?s2 = ?m2" by (simp add: jsonWs_def)
    show "readMember ?m2 = Some ((''target'', t), ?r2)" by (rule m2)
    show "length ?r2 < length ?r1" by simp
    show "readMore ?r2 = Some ([], [])" by (rule more2)
  qed
  have "readObject (CHR ''{'' # ?s1) = Some [(''action'', a), (''target'', t)]"
  proof (rule readObject_members)
    show "dropWhile jsonWs (CHR ''{'' # ?s1) = CHR ''{'' # ?s1" by (simp add: jsonWs_def)
    show "dropWhile jsonWs ?s1 = ?m1" by (simp add: jsonWs_def)
    show "CHR 0x22 \<noteq> CHR ''}''" by simp
    show "readMember ?m1 = Some ((''action'', a), ?r1)" by (rule m1)
    show "readMore ?r1 = Some ([(''target'', t)], [])" by (rule more1)
    show "list_all jsonWs []" by simp
  qed
  then show ?thesis unfolding body .
qed

lemma PerlWord_plain: "atomOk PerlWord c \<Longrightarrow> jsonPlain c"
  by (auto simp: jsonPlain_def Let_def)

lemma posted_body_json:
  assumes "Match triggerMessageRegex t" "list_all jsonPlain (Fields t ! 2)"
  shows "\<exists>b. snd (commandToJson t) = Some b
     \<and> readObject b = Some [(''action'', Fields t ! 1), (''target'', Fields t ! 2)]"
proof -
  obtain w1 tok toks where f: "Fields t = ''@ha'' # w1 # tok # toks"
    and w1: "list_all (atomOk PerlWord) w1"
    using Match_Fields [OF assms(1)] by blast
  have "list_all jsonPlain w1"
    using w1 by (induction w1) (simp_all add: PerlWord_plain del: atomOk.simps)
  then have a: "list_all jsonPlain (Fields t ! 1)" by (simp add: f)
  show ?thesis
    unfolding commandToJson_Match [OF assms(1)]
    using readObject_template [OF a assms(2)] by simp
qed

text \<open>
  C5. The body is the template of \<open>commandToJson\<close> with the second and third field put
  between double quotes as they are; fields after the third do not enter it. By
  \<open>posted_body_json\<close> it is a JSON object with the members \<^verbatim>\<open>action\<close> and
  \<^verbatim>\<open>target\<close> whenever the third field holds no double quote, backslash or control
  character, as for \<^verbatim>\<open>@ha turn_on light1\<close>. For a signed chat message with the text
  \<^verbatim>\<open>@ha turn_on light"x\<close> the trigger matches, the third field is \<^verbatim>\<open>light"x\<close>, and
  the body posted is not a JSON text: the quote of the field ends the string. For the text
  \<^verbatim>\<open>@ha a b","action":"c\<close> the body is a JSON object with a second member
  \<^verbatim>\<open>action\<close>, whose value \<^verbatim>\<open>c\<close> is not the second field.
\<close>

theorem command_body_unescaped:
  "readObject commandPosted = Some [(''action'', ''turn_on''), (''target'', ''light1'')]
   \<and> Match triggerMessageRegex (lit ''@ha turn_on light`x'')
   \<and> Fields (lit ''@ha turn_on light`x'') = [''@ha'', ''turn_on'', lit ''light`x'']
   \<and> HttpPost ''http://ha.local:8123/api/webhook/hook1'' ''application/json'' quotePosted
        \<in> set (fst (messageHandling exampleWorld exampleRng quoteRequest))
   \<and> readObject quotePosted = None
   \<and> CHR 0x5C \<notin> set quotePosted
   \<and> Match triggerMessageRegex (lit ''@ha a b`,`action`:`c'')
   \<and> Fields (lit ''@ha a b`,`action`:`c'') = [''@ha'', ''a'', lit ''b`,`action`:`c'']
   \<and> map_option readObject (snd (commandToJson (lit ''@ha a b`,`action`:`c''))) =
       Some (Some [(''action'', ''a''), (''target'', ''b''), (''action'', ''c'')])"
proof -
  have 1: "readObject commandPosted = Some [(''action'', ''turn_on''), (''target'', ''light1'')]"
    by code_simp
  have 2: "Match triggerMessageRegex (lit ''@ha turn_on light`x'')"
    by code_simp
  have 3: "Fields (lit ''@ha turn_on light`x'') = [''@ha'', ''turn_on'', lit ''light`x'']"
    by code_simp
  have 4: "HttpPost ''http://ha.local:8123/api/webhook/hook1'' ''application/json'' quotePosted
        \<in> set (fst (messageHandling exampleWorld exampleRng quoteRequest))"
    unfolding quote_run by simp
  have 5: "readObject quotePosted = None"
    by code_simp
  have 6: "CHR 0x5C \<notin> set quotePosted"
    by code_simp
  have 7: "Match triggerMessageRegex (lit ''@ha a b`,`action`:`c'')"
    by code_simp
  have 8: "Fields (lit ''@ha a b`,`action`:`c'') = [''@ha'', ''a'', lit ''b`,`action`:`c'']"
    by code_simp
  have 9: "map_option readObject (snd (commandToJson (lit ''@ha a b`,`action`:`c''))) =
       Some (Some [(''action'', ''a''), (''target'', ''b''), (''action'', ''c'')])"
    by code_simp
  show ?thesis using 1 2 3 4 5 6 7 8 9 by blast
qed

end
